theory Spec2Isabelle
  imports Main "HOL-Library.Word"
begin

section \<open>JavaScript strings, thrown errors and values\<close>

text \<open>
  A JavaScript string is a sequence of 16-bit code units. \<open>js\<close> writes an ASCII literal
  of the source as such a sequence.
\<close>

type_synonym js_string = "16 word list"

definition js :: "string \<Rightarrow> js_string" where
  "js s = map (\<lambda>c. of_nat (of_char c)) s"

text \<open>
  Everything the program throws or catches is an Error object; the catch blocks read its
  \<open>name\<close> and \<open>message\<close> only. \<open>new Error(m)\<close> is \<open>JsError (js ''Error'') m\<close>.
\<close>

datatype js_error = JsError (err_name: js_string) (err_message: js_string)

definition new_Error :: "js_string \<Rightarrow> js_error" where
  "new_Error m = JsError (js ''Error'') m"

text \<open>
  The values \<open>JSON.stringify\<close> is applied to and \<open>res.json()\<close> resolves to. An object
  holds its own properties in enumeration order. Numbers are the integral ones (the
  program builds redirect codes only), written in plain decimal digits as
  \<open>Number::toString\<close> does below 10^21.
\<close>

datatype js_value =
    JUndefined
  | JNull
  | JBool bool
  | JNum int
  | JStr js_string
  | JArr "js_value list"
  | JObj "(js_string \<times> js_value) list"

subsection \<open>Number to string\<close>

definition digit_unit :: "nat \<Rightarrow> 16 word" where
  "digit_unit n = of_nat (48 + n)"

fun decimal :: "nat \<Rightarrow> js_string" where
  "decimal n = (if n < 10 then [digit_unit n] else decimal (n div 10) @ [digit_unit (n mod 10)])"

declare decimal.simps [simp del]

definition Number_toString :: "int \<Rightarrow> js_string" where
  "Number_toString i = (if i < 0 then js ''-'' @ decimal (nat (- i)) else decimal (nat i))"

subsection \<open>encodeURIComponent\<close>

text \<open>
  ECMA-262, Encode with the unescaped set of \<open>encodeURIComponent\<close>: letters, digits and
  \<open>- _ . ! ~ * ' ( )\<close> are copied; any other code point is written as the percent-escaped
  octets of its UTF-8 encoding; an unpaired surrogate throws a URIError.
\<close>

definition uriUnescaped :: "16 word \<Rightarrow> bool" where
  "uriUnescaped c \<longleftrightarrow>
     (0x41 \<le> c \<and> c \<le> 0x5A) \<or> (0x61 \<le> c \<and> c \<le> 0x7A) \<or> (0x30 \<le> c \<and> c \<le> 0x39) \<or>
     c = 0x2D \<or> c = 0x5F \<or> c = 0x2E \<or> c = 0x21 \<or> c = 0x7E \<or> c = 0x2A \<or> c = 0x27 \<or>
     c = 0x28 \<or> c = 0x29"

definition hex_digit :: "nat \<Rightarrow> 16 word" where
  "hex_digit n = (if n < 10 then of_nat (48 + n) else of_nat (55 + n))"

definition percent_octet :: "nat \<Rightarrow> js_string" where
  "percent_octet b = [0x25, hex_digit (b div 16), hex_digit (b mod 16)]"

definition utf8_octets :: "nat \<Rightarrow> nat list" where
  "utf8_octets cp =
     (if cp < 0x80 then [cp]
      else if cp < 0x800 then [0xC0 + cp div 64, 0x80 + cp mod 64]
      else if cp < 0x10000 then
        [0xE0 + cp div 4096, 0x80 + (cp div 64) mod 64, 0x80 + cp mod 64]
      else
        [0xF0 + cp div 262144, 0x80 + (cp div 4096) mod 64, 0x80 + (cp div 64) mod 64,
         0x80 + cp mod 64])"

definition percent_escape :: "nat \<Rightarrow> js_string" where
  "percent_escape cp = concat (map percent_octet (utf8_octets cp))"

definition is_lead :: "16 word \<Rightarrow> bool" where
  "is_lead c \<longleftrightarrow> 0xD800 \<le> c \<and> c \<le> 0xDBFF"

definition is_trail :: "16 word \<Rightarrow> bool" where
  "is_trail c \<longleftrightarrow> 0xDC00 \<le> c \<and> c \<le> 0xDFFF"

definition pair_code_point :: "16 word \<Rightarrow> 16 word \<Rightarrow> nat" where
  "pair_code_point c d = (unat c - 0xD800) * 0x400 + (unat d - 0xDC00) + 0x10000"

text \<open>The message of a URIError is implementation-defined; this is V8's.\<close>

definition URIError :: js_error where
  "URIError = JsError (js ''URIError'') (js ''URI malformed'')"

definition emit :: "js_string \<Rightarrow> js_error + js_string \<Rightarrow> js_error + js_string" where
  "emit xs r = (case r of Inl e \<Rightarrow> Inl e | Inr ys \<Rightarrow> Inr (xs @ ys))"

fun encodeURIComponent :: "js_string \<Rightarrow> js_error + js_string" where
  "encodeURIComponent [] = Inr []"
| "encodeURIComponent (c # cs) =
     (if uriUnescaped c then emit [c] (encodeURIComponent cs)
      else if is_lead c then
        (case cs of
           [] \<Rightarrow> Inl URIError
         | d # ds \<Rightarrow>
             if is_trail d
             then emit (percent_escape (pair_code_point c d)) (encodeURIComponent ds)
             else Inl URIError)
      else if is_trail c then Inl URIError
      else emit (percent_escape (unat c)) (encodeURIComponent cs))"

subsection \<open>JSON.stringify\<close>

text \<open>
  ECMA-262, QuoteJSONString: the two-character escapes, \<open>\uXXXX\<close> (lower-case hex) for
  the other control characters and for unpaired surrogates, every other code point as
  it is.
\<close>

definition hex_digit_lower :: "nat \<Rightarrow> 16 word" where
  "hex_digit_lower n = (if n < 10 then of_nat (48 + n) else of_nat (87 + n))"

definition UnicodeEscape :: "16 word \<Rightarrow> js_string" where
  "UnicodeEscape c =
     (let n = unat c in
      [0x5C, 0x75, hex_digit_lower (n div 4096), hex_digit_lower ((n div 256) mod 16),
       hex_digit_lower ((n div 16) mod 16), hex_digit_lower (n mod 16)])"

fun quote_units :: "js_string \<Rightarrow> js_string" where
  "quote_units [] = []"
| "quote_units (c # cs) =
     (if c = 0x08 then [0x5C, 0x62] @ quote_units cs
      else if c = 0x09 then [0x5C, 0x74] @ quote_units cs
      else if c = 0x0A then [0x5C, 0x6E] @ quote_units cs
      else if c = 0x0C then [0x5C, 0x66] @ quote_units cs
      else if c = 0x0D then [0x5C, 0x72] @ quote_units cs
      else if c = 0x22 then [0x5C, 0x22] @ quote_units cs
      else if c = 0x5C then [0x5C, 0x5C] @ quote_units cs
      else if c < 0x20 then UnicodeEscape c @ quote_units cs
      else if is_lead c then
        (case cs of
           [] \<Rightarrow> UnicodeEscape c
         | d # ds \<Rightarrow>
             if is_trail d then c # d # quote_units ds
             else UnicodeEscape c @ quote_units (d # ds))
      else if is_trail c then UnicodeEscape c @ quote_units cs
      else c # quote_units cs)"

definition QuoteJSONString :: "js_string \<Rightarrow> js_string" where
  "QuoteJSONString s = [0x22] @ quote_units s @ [0x22]"

fun join_comma :: "js_string list \<Rightarrow> js_string" where
  "join_comma [] = []"
| "join_comma [x] = x"
| "join_comma (x # y # ys) = x @ [0x2C] @ join_comma (y # ys)"

text \<open>
  SerializeJSONProperty without replacer and indentation. \<open>None\<close> is the result
  \<open>undefined\<close>: an object leaves such a property out, an array writes \<open>null\<close> for it.
  \<open>SerializeJSONMembers\<close> is the list of (key, text) pairs an object keeps, and
  \<open>JSON_object_text\<close> the text written for them.
\<close>

definition JSON_object_text :: "(js_string \<times> js_string) list \<Rightarrow> js_string" where
  "JSON_object_text ms =
     js ''{'' @ join_comma (map (\<lambda>(k, t). QuoteJSONString k @ js '':'' @ t) ms) @ js ''}''"

fun SerializeJSONProperty :: "js_value \<Rightarrow> js_string option"
  and SerializeJSONElements :: "js_value list \<Rightarrow> js_string list"
  and SerializeJSONMembers :: "(js_string \<times> js_value) list \<Rightarrow> (js_string \<times> js_string) list"
where
  "SerializeJSONProperty JUndefined = None"
| "SerializeJSONProperty JNull = Some (js ''null'')"
| "SerializeJSONProperty (JBool b) = Some (if b then js ''true'' else js ''false'')"
| "SerializeJSONProperty (JNum i) = Some (Number_toString i)"
| "SerializeJSONProperty (JStr s) = Some (QuoteJSONString s)"
| "SerializeJSONProperty (JArr xs) =
     Some (js ''['' @ join_comma (SerializeJSONElements xs) @ js '']'')"
| "SerializeJSONProperty (JObj ps) = Some (JSON_object_text (SerializeJSONMembers ps))"
| "SerializeJSONElements [] = []"
| "SerializeJSONElements (x # xs) =
     (case SerializeJSONProperty x of None \<Rightarrow> js ''null'' | Some t \<Rightarrow> t) #
     SerializeJSONElements xs"
| "SerializeJSONMembers [] = []"
| "SerializeJSONMembers ((k, v) # ps) =
     (case SerializeJSONProperty v of
        None \<Rightarrow> SerializeJSONMembers ps
      | Some t \<Rightarrow> (k, t) # SerializeJSONMembers ps)"

definition JSON_stringify :: "js_value \<Rightarrow> js_string option" where
  "JSON_stringify v = SerializeJSONProperty v"

text \<open>The keys of the members that \<open>JSON.stringify\<close> writes for an object.\<close>

fun object_properties :: "js_value \<Rightarrow> (js_string \<times> js_value) list" where
  "object_properties (JObj ps) = ps"
| "object_properties v = []"


section \<open>fetch: the request given to it and the response it resolves to\<close>

text \<open>
  \<open>fetch(url, init)\<close> is the platform's. The model records the arguments of the call
  (\<open>Request\<close>) and takes \<open>fetch\<close> itself as a parameter: a function from the request to
  the rejection (\<open>Inl\<close>) or the \<open>Response\<close> (\<open>Inr\<close>) the promise settles with. A
  \<open>Response\<close> is read through \<open>status\<close>, \<open>ok\<close>, \<open>headers.get\<close>, \<open>text()\<close> and
  \<open>json()\<close>; the last two are promises of their own, which may reject.
\<close>

record Request =
  req_url :: js_string
  req_method :: js_string
  req_headers :: "(js_string \<times> js_string) list"
  req_body :: "js_string option"
  req_redirect :: "js_string option"

record Response =
  res_status :: nat
  res_headers :: "(js_string \<times> js_string) list"
  res_text :: "js_error + js_string"
  res_json :: "js_error + js_value"

type_synonym fetch_fn = "Request \<Rightarrow> js_error + Response"

text \<open>\<open>Response.ok\<close>: the status is in the range 200 to 299.\<close>

definition res_ok :: "Response \<Rightarrow> bool" where
  "res_ok res \<longleftrightarrow> 200 \<le> res_status res \<and> res_status res \<le> 299"

text \<open>
  \<open>Headers.get(name)\<close>: header names compare ASCII case-insensitively; the values of
  all headers of that name are joined with a comma and a space; \<open>null\<close> (\<open>None\<close>) when
  there is none.
\<close>

definition ascii_lower :: "16 word \<Rightarrow> 16 word" where
  "ascii_lower c = (if 0x41 \<le> c \<and> c \<le> 0x5A then c + 0x20 else c)"

fun join_comma_space :: "js_string list \<Rightarrow> js_string" where
  "join_comma_space [] = []"
| "join_comma_space [x] = x"
| "join_comma_space (x # y # ys) = x @ [0x2C, 0x20] @ join_comma_space (y # ys)"

definition Headers_get :: "(js_string \<times> js_string) list \<Rightarrow> js_string \<Rightarrow> js_string option" where
  "Headers_get hs name =
     (case map snd (filter (\<lambda>(k, v). map ascii_lower k = map ascii_lower name) hs) of
        [] \<Rightarrow> None
      | vs \<Rightarrow> Some (join_comma_space vs))"

section \<open>The API client (lib/api.ts)\<close>

text \<open>
  \<open>redirect_code?: 301 | 302 | 307 | 308\<close> is a union of four number literals.
\<close>

datatype RedirectCode = R301 | R302 | R307 | R308

fun code_number :: "RedirectCode \<Rightarrow> int" where
  "code_number R301 = 301"
| "code_number R302 = 302"
| "code_number R307 = 307"
| "code_number R308 = 308"

text \<open>\<open>CreateLinkPayload\<close>; an optional property that is absent or undefined is \<open>None\<close>.\<close>

record CreateLinkPayload =
  target_url :: js_string
  link_id :: "js_string option"
  redirect_code :: "RedirectCode option"

text \<open>
  The object a \<open>CreateLinkPayload\<close> is at run time, with its properties in the order
  the object literals of the program write them.
\<close>

definition CreateLinkPayload_object :: "CreateLinkPayload \<Rightarrow> js_value" where
  "CreateLinkPayload_object p =
     JObj [(js ''target_url'', JStr (target_url p)),
           (js ''link_id'', (case link_id p of None \<Rightarrow> JUndefined | Some a \<Rightarrow> JStr a)),
           (js ''redirect_code'',
              (case redirect_code p of None \<Rightarrow> JUndefined | Some c \<Rightarrow> JNum (code_number c)))]"






text \<open>
  \<open>import.meta.env.VITE_API_BASE || 'http://localhost:8000'\<close>: the build-time variable
  is the parameter \<open>env\<close>, \<open>None\<close> when it is not set; an empty string is falsy.
\<close>

definition API_BASE :: "js_string option \<Rightarrow> js_string" where
  "API_BASE env =
     (case env of
        None \<Rightarrow> js ''http://localhost:8000''
      | Some b \<Rightarrow> if b = [] then js ''http://localhost:8000'' else b)"

text \<open>
  Each of the three functions calls \<open>fetch\<close> once. \<open>f_request\<close> is the call's arguments
  (or what is thrown before the call), \<open>f\<close> the value the returned promise settles with:
  \<open>Inl\<close> a rejection, \<open>Inr\<close> the value it resolves to.
\<close>

definition createLink_request :: "js_string option \<Rightarrow> CreateLinkPayload \<Rightarrow> Request" where
  "createLink_request env payload =
     \<lparr>req_url = API_BASE env @ js ''/api/links'',
      req_method = js ''POST'',
      req_headers = [(js ''Content-Type'', js ''application/json'')],
      req_body = JSON_stringify (CreateLinkPayload_object payload),
      req_redirect = None\<rparr>"

definition createLink ::
  "js_string option \<Rightarrow> fetch_fn \<Rightarrow> CreateLinkPayload \<Rightarrow> js_error + js_value" where
  "createLink env fetch payload =
     (case fetch (createLink_request env payload) of
        Inl e \<Rightarrow> Inl e
      | Inr res \<Rightarrow>
          if \<not> res_ok res then
            (case res_text res of Inl e \<Rightarrow> Inl e | Inr t \<Rightarrow> Inl (new_Error t))
          else res_json res)"

definition updateLink_request ::
  "js_string option \<Rightarrow> js_string \<Rightarrow> js_string \<Rightarrow> (js_string \<times> js_value) list \<Rightarrow>
   js_error + Request" where
  "updateLink_request env linkId token data =
     (case encodeURIComponent linkId of
        Inl e \<Rightarrow> Inl e
      | Inr seg \<Rightarrow>
          Inr \<lparr>req_url = API_BASE env @ js ''/api/links/'' @ seg,
               req_method = js ''PATCH'',
               req_headers = [(js ''Content-Type'', js ''application/json''),
                              (js ''X-Edit-Token'', token)],
               req_body = JSON_stringify (JObj data),
               req_redirect = None\<rparr>)"

definition updateLink ::
  "js_string option \<Rightarrow> fetch_fn \<Rightarrow> js_string \<Rightarrow> js_string \<Rightarrow> (js_string \<times> js_value) list \<Rightarrow>
   js_error + js_value" where
  "updateLink env fetch linkId token data =
     (case updateLink_request env linkId token data of
        Inl e \<Rightarrow> Inl e
      | Inr rq \<Rightarrow>
          (case fetch rq of
             Inl e \<Rightarrow> Inl e
           | Inr res \<Rightarrow>
               if \<not> res_ok res then
                 (case res_text res of Inl e \<Rightarrow> Inl e | Inr t \<Rightarrow> Inl (new_Error t))
               else res_json res))"

definition deleteLink_request ::
  "js_string option \<Rightarrow> js_string \<Rightarrow> js_string \<Rightarrow> js_error + Request" where
  "deleteLink_request env linkId token =
     (case encodeURIComponent linkId of
        Inl e \<Rightarrow> Inl e
      | Inr seg \<Rightarrow>
          Inr \<lparr>req_url = API_BASE env @ js ''/api/links/'' @ seg,
               req_method = js ''DELETE'',
               req_headers = [(js ''X-Edit-Token'', token)],
               req_body = None,
               req_redirect = None\<rparr>)"

definition deleteLink ::
  "js_string option \<Rightarrow> fetch_fn \<Rightarrow> js_string \<Rightarrow> js_string \<Rightarrow> js_error + js_value" where
  "deleteLink env fetch linkId token =
     (case deleteLink_request env linkId token of
        Inl e \<Rightarrow> Inl e
      | Inr rq \<Rightarrow>
          (case fetch rq of
             Inl e \<Rightarrow> Inl e
           | Inr res \<Rightarrow>
               if \<not> res_ok res then
                 (case res_text res of Inl e \<Rightarrow> Inl e | Inr t \<Rightarrow> Inl (new_Error t))
               else res_json res))"

section \<open>The page (App.svelte)\<close>

text \<open>
  The component's variables. \<open>null\<close> is \<open>None\<close> for the error strings and \<open>JNull\<close> for
  the results (which hold whatever \<open>res.json()\<close> gave). \<open>updCode\<close> is one of the four
  codes or the empty string, here \<open>None\<close>. The three fields of \<open>redirectTester\<close> are the
  \<open>tester_\<close> fields.
\<close>

record ui_state =
  createForm :: CreateLinkPayload
  createResult :: js_value
  createError :: "js_string option"
  updLinkId :: js_string
  updToken :: js_string
  updTarget :: js_string
  updCode :: "RedirectCode option"
  updNewAlias :: js_string
  updError :: "js_string option"
  updResult :: js_value
  delLinkId :: js_string
  delToken :: js_string
  delError :: "js_string option"
  delResult :: js_value
  tester_linkId :: js_string
  tester_status :: js_string
  tester_location :: js_string

definition initial_state :: ui_state where
  "initial_state =
     \<lparr>createForm = \<lparr>target_url = [], link_id = Some [], redirect_code = Some R301\<rparr>,
      createResult = JNull,
      createError = None,
      updLinkId = [],
      updToken = [],
      updTarget = [],
      updCode = None,
      updNewAlias = [],
      updError = None,
      updResult = JNull,
      delLinkId = [],
      delToken = [],
      delError = None,
      delResult = JNull,
      tester_linkId = [],
      tester_status = [],
      tester_location = []\<rparr>"

text \<open>
  \<open>e?.message || String(e)\<close> for a caught Error object: its message unless that is
  empty, else \<open>Error.prototype.toString\<close>.
\<close>

definition Error_toString :: "js_error \<Rightarrow> js_string" where
  "Error_toString e =
     (if err_name e = [] then err_message e
      else if err_message e = [] then err_name e
      else err_name e @ js '': '' @ err_message e)"

definition caught_message :: "js_error \<Rightarrow> js_string" where
  "caught_message e = (if err_message e \<noteq> [] then err_message e else Error_toString e)"

text \<open>
  An async handler runs in two parts. The first runs when the button is clicked, up to
  the \<open>await\<close>: the two resets, the payload read from the form, and the call that issues
  the request. The second runs when the awaited promise settles. \<open>onCreate_reset\<close> and
  \<open>onCreate_payload\<close> are the first part, \<open>onCreate_settle\<close> the second, and
  \<open>onCreate\<close> one invocation run from click to completion with nothing in between.
\<close>

definition onCreate_reset :: "ui_state \<Rightarrow> ui_state" where
  "onCreate_reset s = s\<lparr>createError := None, createResult := JNull\<rparr>"

definition onCreate_payload :: "ui_state \<Rightarrow> CreateLinkPayload" where
  "onCreate_payload s =
     \<lparr>target_url = target_url (createForm s),
      link_id = (case link_id (createForm s) of
                   None \<Rightarrow> None
                 | Some a \<Rightarrow> if a = [] then None else Some a),
      redirect_code = redirect_code (createForm s)\<rparr>"

definition onCreate_settle :: "js_error + js_value \<Rightarrow> ui_state \<Rightarrow> ui_state" where
  "onCreate_settle outcome s =
     (case outcome of
        Inr v \<Rightarrow> s\<lparr>createResult := v\<rparr>
      | Inl e \<Rightarrow> s\<lparr>createError := Some (caught_message e)\<rparr>)"

definition onCreate :: "js_string option \<Rightarrow> fetch_fn \<Rightarrow> ui_state \<Rightarrow> ui_state" where
  "onCreate env fetch s =
     onCreate_settle (createLink env fetch (onCreate_payload s)) (onCreate_reset s)"

text \<open>
  The (key, text) members of the body that \<open>onCreate\<close> sends in a state: those
  \<open>JSON.stringify\<close> writes for the payload object.
\<close>

definition onCreate_members :: "ui_state \<Rightarrow> (js_string \<times> js_string) list" where
  "onCreate_members s =
     SerializeJSONMembers (object_properties (CreateLinkPayload_object (onCreate_payload s)))"

definition onUpdate_reset :: "ui_state \<Rightarrow> ui_state" where
  "onUpdate_reset s = s\<lparr>updError := None, updResult := JNull\<rparr>"

definition onUpdate_data :: "ui_state \<Rightarrow> (js_string \<times> js_value) list" where
  "onUpdate_data s =
     (if updTarget s \<noteq> [] then [(js ''target_url'', JStr (updTarget s))] else []) @
     (case updCode s of
        Some c \<Rightarrow> [(js ''redirect_code'', JNum (code_number c))]
      | None \<Rightarrow> []) @
     (if updNewAlias s \<noteq> [] then [(js ''new_link_id'', JStr (updNewAlias s))] else [])"

definition onUpdate_settle :: "js_error + js_value \<Rightarrow> ui_state \<Rightarrow> ui_state" where
  "onUpdate_settle outcome s =
     (case outcome of
        Inr v \<Rightarrow> s\<lparr>updResult := v\<rparr>
      | Inl e \<Rightarrow> s\<lparr>updError := Some (caught_message e)\<rparr>)"

definition onUpdate :: "js_string option \<Rightarrow> fetch_fn \<Rightarrow> ui_state \<Rightarrow> ui_state" where
  "onUpdate env fetch s =
     onUpdate_settle (updateLink env fetch (updLinkId s) (updToken s) (onUpdate_data s))
       (onUpdate_reset s)"

definition onDelete_reset :: "ui_state \<Rightarrow> ui_state" where
  "onDelete_reset s = s\<lparr>delError := None, delResult := JNull\<rparr>"

definition onDelete_settle :: "js_error + js_value \<Rightarrow> ui_state \<Rightarrow> ui_state" where
  "onDelete_settle outcome s =
     (case outcome of
        Inr v \<Rightarrow> s\<lparr>delResult := v\<rparr>
      | Inl e \<Rightarrow> s\<lparr>delError := Some (caught_message e)\<rparr>)"

definition onDelete :: "js_string option \<Rightarrow> fetch_fn \<Rightarrow> ui_state \<Rightarrow> ui_state" where
  "onDelete env fetch s =
     onDelete_settle (deleteLink env fetch (delLinkId s) (delToken s)) (onDelete_reset s)"

text \<open>
  \<open>testRedirect\<close> calls \<open>fetch\<close> itself. \<open>String(res.status)\<close> is the decimal numeral;
  \<open>res.headers.get('Location') || ''\<close> is the header's value, and the empty string when
  there is no such header.
\<close>

definition testRedirect_reset :: "ui_state \<Rightarrow> ui_state" where
  "testRedirect_reset s = s\<lparr>tester_status := [], tester_location := []\<rparr>"

definition testRedirect_request :: "js_string option \<Rightarrow> ui_state \<Rightarrow> js_error + Request" where
  "testRedirect_request env s =
     (case encodeURIComponent (tester_linkId s) of
        Inl e \<Rightarrow> Inl e
      | Inr seg \<Rightarrow>
          Inr \<lparr>req_url = API_BASE env @ js ''/'' @ seg,
               req_method = js ''GET'',
               req_headers = [],
               req_body = None,
               req_redirect = Some (js ''manual'')\<rparr>)"

definition testRedirect_settle :: "js_error + Response \<Rightarrow> ui_state \<Rightarrow> ui_state" where
  "testRedirect_settle outcome s =
     (case outcome of
        Inr res \<Rightarrow>
          s\<lparr>tester_status := decimal (res_status res),
            tester_location :=
              (case Headers_get (res_headers res) (js ''Location'') of
                 None \<Rightarrow> []
               | Some v \<Rightarrow> if v \<noteq> [] then v else [])\<rparr>
      | Inl e \<Rightarrow> s\<lparr>tester_status := js ''error'', tester_location := caught_message e\<rparr>)"

definition testRedirect :: "js_string option \<Rightarrow> fetch_fn \<Rightarrow> ui_state \<Rightarrow> ui_state" where
  "testRedirect env fetch s =
     testRedirect_settle
       (case testRedirect_request env s of Inl e \<Rightarrow> Inl e | Inr rq \<Rightarrow> fetch rq)
       (testRedirect_reset s)"

text \<open>
  What can happen to the page: an input or a select writes its bound variable (the two
  selects offer the four codes; the update one also the empty choice), a click starts a
  handler, and a pending request settles later, with any outcome. A call that throws
  before it reaches \<open>fetch\<close> settles at once.
\<close>

datatype ui_event =
    InputCreateTarget js_string
  | InputCreateAlias js_string
  | SelectCreateCode RedirectCode
  | InputUpdLinkId js_string
  | InputUpdToken js_string
  | InputUpdTarget js_string
  | SelectUpdCode "RedirectCode option"
  | InputUpdNewAlias js_string
  | InputDelLinkId js_string
  | InputDelToken js_string
  | InputTesterLinkId js_string
  | ClickCreate
  | SettleCreate "js_error + js_value"
  | ClickUpdate
  | SettleUpdate "js_error + js_value"
  | ClickDelete
  | SettleDelete "js_error + js_value"
  | ClickTest
  | SettleTest "js_error + Response"

fun ui_step :: "js_string option \<Rightarrow> ui_state \<Rightarrow> ui_event \<Rightarrow> ui_state" where
  "ui_step env s (InputCreateTarget v) = s\<lparr>createForm := (createForm s)\<lparr>target_url := v\<rparr>\<rparr>"
| "ui_step env s (InputCreateAlias v) = s\<lparr>createForm := (createForm s)\<lparr>link_id := Some v\<rparr>\<rparr>"
| "ui_step env s (SelectCreateCode c) =
     s\<lparr>createForm := (createForm s)\<lparr>redirect_code := Some c\<rparr>\<rparr>"
| "ui_step env s (InputUpdLinkId v) = s\<lparr>updLinkId := v\<rparr>"
| "ui_step env s (InputUpdToken v) = s\<lparr>updToken := v\<rparr>"
| "ui_step env s (InputUpdTarget v) = s\<lparr>updTarget := v\<rparr>"
| "ui_step env s (SelectUpdCode c) = s\<lparr>updCode := c\<rparr>"
| "ui_step env s (InputUpdNewAlias v) = s\<lparr>updNewAlias := v\<rparr>"
| "ui_step env s (InputDelLinkId v) = s\<lparr>delLinkId := v\<rparr>"
| "ui_step env s (InputDelToken v) = s\<lparr>delToken := v\<rparr>"
| "ui_step env s (InputTesterLinkId v) = s\<lparr>tester_linkId := v\<rparr>"
| "ui_step env s ClickCreate = onCreate_reset s"
| "ui_step env s (SettleCreate outcome) = onCreate_settle outcome s"
| "ui_step env s ClickUpdate =
     (case updateLink_request env (updLinkId s) (updToken s) (onUpdate_data s) of
        Inl e \<Rightarrow> onUpdate_settle (Inl e) (onUpdate_reset s)
      | Inr rq \<Rightarrow> onUpdate_reset s)"
| "ui_step env s (SettleUpdate outcome) = onUpdate_settle outcome s"
| "ui_step env s ClickDelete =
     (case deleteLink_request env (delLinkId s) (delToken s) of
        Inl e \<Rightarrow> onDelete_settle (Inl e) (onDelete_reset s)
      | Inr rq \<Rightarrow> onDelete_reset s)"
| "ui_step env s (SettleDelete outcome) = onDelete_settle outcome s"
| "ui_step env s ClickTest =
     (case testRedirect_request env s of
        Inl e \<Rightarrow> testRedirect_settle (Inl e) (testRedirect_reset s)
      | Inr rq \<Rightarrow> testRedirect_reset s)"
| "ui_step env s (SettleTest outcome) = testRedirect_settle outcome s"

definition ui_run :: "js_string option \<Rightarrow> ui_state \<Rightarrow> ui_event list \<Rightarrow> ui_state" where
  "ui_run env s evs = foldl (ui_step env) s evs"

text \<open>The events of one handler: its click and the settling of one of its requests.\<close>

fun is_create_event :: "ui_event \<Rightarrow> bool" where
  "is_create_event ClickCreate = True"
| "is_create_event (SettleCreate outcome) = True"
| "is_create_event ev = False"

fun is_update_event :: "ui_event \<Rightarrow> bool" where
  "is_update_event ClickUpdate = True"
| "is_update_event (SettleUpdate outcome) = True"
| "is_update_event ev = False"

fun is_delete_event :: "ui_event \<Rightarrow> bool" where
  "is_delete_event ClickDelete = True"
| "is_delete_event (SettleDelete outcome) = True"
| "is_delete_event ev = False"

text \<open>
  One invocation of a handler as the page sees it: the click, then the events
  \<open>between\<close>, then the settling of the invocation's request with \<open>outcome\<close>.
\<close>

definition after_create ::
  "js_string option \<Rightarrow> ui_state \<Rightarrow> ui_event list \<Rightarrow> js_error + js_value \<Rightarrow> ui_state" where
  "after_create env s between outcome =
     ui_step env (ui_run env (ui_step env s ClickCreate) between) (SettleCreate outcome)"

definition after_update ::
  "js_string option \<Rightarrow> ui_state \<Rightarrow> ui_event list \<Rightarrow> js_error + js_value \<Rightarrow> ui_state" where
  "after_update env s between outcome =
     ui_step env (ui_run env (ui_step env s ClickUpdate) between) (SettleUpdate outcome)"

definition after_delete ::
  "js_string option \<Rightarrow> ui_state \<Rightarrow> ui_event list \<Rightarrow> js_error + js_value \<Rightarrow> ui_state" where
  "after_delete env s between outcome =
     ui_step env (ui_run env (ui_step env s ClickDelete) between) (SettleDelete outcome)"

text \<open>A server that gives every request the same response.\<close>

definition fetch_always :: "Response \<Rightarrow> fetch_fn" where
  "fetch_always res rq = Inr res"

text \<open>The response with the given status whose body is the JSON text of a value.\<close>

definition json_response :: "nat \<Rightarrow> js_value \<Rightarrow> Response" where
  "json_response n v =
     \<lparr>res_status = n,
      res_headers = [(js ''Content-Type'', js ''application/json'')],
      res_text = (case JSON_stringify v of None \<Rightarrow> Inr [] | Some t \<Rightarrow> Inr t),
      res_json = Inr v\<rparr>"

text \<open>Example bodies of the three declared shapes.\<close>

definition example_link :: js_value where
  "example_link =
     JObj [(js ''link_id'', JStr (js ''abc'')),
           (js ''target_url'', JStr (js ''https://example.com'')),
           (js ''redirect_code'', JNum 301),
           (js ''created_at'', JStr (js ''2025-01-01T00:00:00Z'')),
           (js ''updated_at'', JStr (js ''2025-01-02T00:00:00Z'')),
           (js ''active'', JBool True),
           (js ''expires_at'', JNull)]"

definition example_created :: js_value where
  "example_created =
     JObj [(js ''link_id'', JStr (js ''abc'')),
           (js ''short_url'', JStr (js ''http://localhost:8000/abc'')),
           (js ''edit_token'', JStr (js ''s3cr3t'')),
           (js ''redirect_code'', JNum 301),
           (js ''created_at'', JStr (js ''2025-01-01T00:00:00Z''))]"

definition example_deleted :: js_value where
  "example_deleted =
     JObj [(js ''status'', JStr (js ''deleted'')), (js ''link_id'', JStr (js ''abc''))]"

section \<open>What a URL parser makes of a path\<close>

text \<open>
  The request target is the URL that \<open>fetch\<close> parses from the string it is given. For
  the path of an http(s) URL the URL Standard's parser (path start state, path state)
  splits at \<open>/\<close> and \<open>\\<close>, stops at \<open>?\<close> or \<open>#\<close>, drops a single-dot segment and,
  on a double-dot segment, removes the last segment collected so far; \<open>%2e\<close> in either
  case counts as a dot. \<open>url_path_segments\<close> is the path it builds from the text that
  follows the authority. Code units that the parser would percent-encode first are not
  treated: the paths below are made of letters, digits, \<open>- _ . ! ~ * ' ( ) % /\<close>, which
  it copies.
\<close>

definition is_single_dot :: "js_string \<Rightarrow> bool" where
  "is_single_dot seg \<longleftrightarrow>
     map ascii_lower seg = js ''.'' \<or> map ascii_lower seg = js ''%2e''"

definition is_double_dot :: "js_string \<Rightarrow> bool" where
  "is_double_dot seg \<longleftrightarrow>
     map ascii_lower seg = js ''..'' \<or> map ascii_lower seg = js ''.%2e'' \<or>
     map ascii_lower seg = js ''%2e.'' \<or> map ascii_lower seg = js ''%2e%2e''"

definition path_end :: "js_string list \<Rightarrow> js_string \<Rightarrow> js_string list" where
  "path_end path buffer =
     (if is_double_dot buffer then butlast path @ [[]]
      else if is_single_dot buffer then path @ [[]]
      else path @ [buffer])"

fun path_state :: "js_string list \<Rightarrow> js_string \<Rightarrow> js_string \<Rightarrow> js_string list" where
  "path_state path buffer [] = path_end path buffer"
| "path_state path buffer (c # cs) =
     (if c = 0x2F \<or> c = 0x5C then
        (if is_double_dot buffer then path_state (butlast path) [] cs
         else if is_single_dot buffer then path_state path [] cs
         else path_state (path @ [buffer]) [] cs)
      else if c = 0x3F \<or> c = 0x23 then path_end path buffer
      else path_state path (buffer @ [c]) cs)"

definition url_path_segments :: "js_string \<Rightarrow> js_string list" where
  "url_path_segments raw =
     (case raw of
        [] \<Rightarrow> path_state [] [] []
      | c # cs \<Rightarrow> if c = 0x2F \<or> c = 0x5C then path_state [] [] cs else path_state [] [] (c # cs))"

section \<open>Response bodies and the declared types\<close>







section \<open>What a browser's fetch does with the call\<close>

text \<open>
  The page runs in a browser. Between the call \<open>fetch(url, init)\<close> and the network, and
  between the network's answer and the \<open>Response\<close> the page sees, stands the Fetch
  Standard:
  \<^item> each header value of \<open>init\<close> is converted to a byte string (a code unit above
    \<open>0xFF\<close> is a TypeError), stripped of leading and trailing HTTP whitespace (tab, LF,
    CR, space), and then refused with a TypeError if it contains NUL, LF or CR; a header
    name must be a token. On a TypeError the promise rejects and nothing is sent;
  \<^item> with \<open>redirect: 'manual'\<close>, a response with a redirect status (301, 302, 303, 307,
    308) is handed to the page as an opaque-redirect response: status 0, no headers, no
    body;
  \<^item> otherwise the page sees the status and the body as they are, and those headers
    whose names it is allowed to read (all of interest here for a same-origin response,
    the CORS-safelisted and exposed ones for a cross-origin one): the parameter
    \<open>exposed\<close>.
  The parameter \<open>net\<close> is the rest: parsing the URL, the connection and the server. It
  gets the request as sent and answers with the response on the wire (after following
  redirects, when the mode is the default \<open>follow\<close>) or fails. Neither of the two header
  names of the program is a forbidden one, which fetch would drop. The message of the
  TypeError is implementation-defined.
\<close>

definition TypeError :: js_error where
  "TypeError = JsError (js ''TypeError'') (js ''Failed to fetch'')"

definition is_http_whitespace :: "16 word \<Rightarrow> bool" where
  "is_http_whitespace c \<longleftrightarrow> c = 0x09 \<or> c = 0x0A \<or> c = 0x0D \<or> c = 0x20"

definition normalize_value :: "js_string \<Rightarrow> js_string" where
  "normalize_value v =
     rev (dropWhile is_http_whitespace (rev (dropWhile is_http_whitespace v)))"

definition sendable_value :: "js_string \<Rightarrow> bool" where
  "sendable_value v \<longleftrightarrow>
     list_all (\<lambda>c. c \<le> 0xFF) v \<and>
     list_all (\<lambda>c. c \<noteq> 0x00 \<and> c \<noteq> 0x0A \<and> c \<noteq> 0x0D) (normalize_value v)"

definition is_tchar :: "16 word \<Rightarrow> bool" where
  "is_tchar c \<longleftrightarrow>
     (0x41 \<le> c \<and> c \<le> 0x5A) \<or> (0x61 \<le> c \<and> c \<le> 0x7A) \<or> (0x30 \<le> c \<and> c \<le> 0x39) \<or>
     c = 0x21 \<or> c = 0x23 \<or> c = 0x24 \<or> c = 0x25 \<or> c = 0x26 \<or> c = 0x27 \<or> c = 0x2A \<or>
     c = 0x2B \<or> c = 0x2D \<or> c = 0x2E \<or> c = 0x5E \<or> c = 0x5F \<or> c = 0x60 \<or> c = 0x7C \<or>
     c = 0x7E"

definition is_header_name :: "js_string \<Rightarrow> bool" where
  "is_header_name k \<longleftrightarrow> k \<noteq> [] \<and> list_all is_tchar k"

definition fetch_header :: "js_string \<times> js_string \<Rightarrow> js_error + js_string \<times> js_string" where
  "fetch_header h =
     (if is_header_name (fst h) \<and> sendable_value (snd h)
      then Inr (fst h, normalize_value (snd h))
      else Inl TypeError)"

fun fetch_headers ::
  "(js_string \<times> js_string) list \<Rightarrow> js_error + (js_string \<times> js_string) list" where
  "fetch_headers [] = Inr []"
| "fetch_headers (h # hs) =
     (case fetch_header h of
        Inl e \<Rightarrow> Inl e
      | Inr h' \<Rightarrow>
          (case fetch_headers hs of Inl e \<Rightarrow> Inl e | Inr hs' \<Rightarrow> Inr (h' # hs')))"

text \<open>The request as it is sent, or the TypeError the promise rejects with.\<close>

definition wire_request :: "Request \<Rightarrow> js_error + Request" where
  "wire_request rq =
     (case fetch_headers (req_headers rq) of
        Inl e \<Rightarrow> Inl e
      | Inr hs \<Rightarrow> Inr (rq\<lparr>req_headers := hs\<rparr>))"

definition is_redirect_status :: "nat \<Rightarrow> bool" where
  "is_redirect_status n \<longleftrightarrow> n = 301 \<or> n = 302 \<or> n = 303 \<or> n = 307 \<or> n = 308"

definition opaque_redirect :: Response where
  "opaque_redirect =
     \<lparr>res_status = 0, res_headers = [], res_text = Inr [],
      res_json = Inl (JsError (js ''SyntaxError'') (js ''Unexpected end of JSON input''))\<rparr>"

definition browser_fetch :: "(js_string \<Rightarrow> bool) \<Rightarrow> fetch_fn \<Rightarrow> fetch_fn" where
  "browser_fetch exposed net rq =
     (case wire_request rq of
        Inl e \<Rightarrow> Inl e
      | Inr w \<Rightarrow>
          (case net w of
             Inl e \<Rightarrow> Inl e
           | Inr res \<Rightarrow>
               if req_redirect rq = Some (js ''manual'') \<and> is_redirect_status (res_status res)
               then Inr opaque_redirect
               else Inr (res\<lparr>res_headers := filter (\<lambda>(k, v). exposed k) (res_headers res)\<rparr>)))"

section \<open>Evaluation of literals\<close>

lemma js_simps: "js [] = []" "js (c # cs) = of_nat (of_char c) # js cs"
  by (simp_all add: js_def)

lemma key_distinct:
  "js ''target_url'' \<noteq> js ''redirect_code''" "js ''target_url'' \<noteq> js ''new_link_id''"
  "js ''redirect_code'' \<noteq> js ''new_link_id''" "js ''target_url'' \<noteq> js ''link_id''"
  "js ''link_id'' \<noteq> js ''redirect_code''"
  by (simp_all add: js_simps)

section \<open>What the functions return and the declared types\<close>










lemma json_response_ok:
  "res_ok (json_response 200 v)" "res_ok (json_response 201 v)"
  "res_json (json_response n v) = Inr v"
  by (simp_all add: json_response_def res_ok_def)

lemma plain_id_requests:
  "\<exists>rq. updateLink_request env (js ''abc'') token data = Inr rq"
  "\<exists>rq. deleteLink_request env (js ''abc'') token = Inr rq"
  by (simp_all add: updateLink_request_def deleteLink_request_def uriUnescaped_def emit_def
      js_simps)



















section \<open>The requests of update and delete\<close>

text \<open>
  What fetch makes of the headers of update and delete: the token is stripped of
  surrounding whitespace, and a token that is no header value stops the call.
\<close>

lemma normalize_value_id:
  "v = [] \<or> \<not> is_http_whitespace (hd v) \<and> \<not> is_http_whitespace (last v) \<Longrightarrow>
   normalize_value v = v"
proof (cases v)
  case Nil
  then show ?thesis by (simp add: normalize_value_def)
next
  case (Cons c cs)
  assume "v = [] \<or> \<not> is_http_whitespace (hd v) \<and> \<not> is_http_whitespace (last v)"
  with Cons have h: "\<not> is_http_whitespace c" and l: "\<not> is_http_whitespace (last v)" by simp_all
  from h Cons have 1: "dropWhile is_http_whitespace v = v" by simp
  from Cons have "rev v \<noteq> []" "hd (rev v) = last v" by (simp_all add: hd_rev)
  then obtain ys where r: "rev v = last v # ys" by (cases "rev v") auto
  from l have "dropWhile is_http_whitespace (last v # ys) = last v # ys" by simp
  then have 2: "dropWhile is_http_whitespace (rev v) = rev v"
    unfolding r .
  show ?thesis by (simp add: normalize_value_def 1 2)
qed

lemma content_type_header:
  "fetch_header (js ''Content-Type'', js ''application/json'') =
     Inr (js ''Content-Type'', js ''application/json'')"
  by (simp add: fetch_header_def is_header_name_def is_tchar_def sendable_value_def
      normalize_value_def is_http_whitespace_def js_simps)

lemma edit_token_header:
  "fetch_header (js ''X-Edit-Token'', token) =
     (if sendable_value token then Inr (js ''X-Edit-Token'', normalize_value token)
      else Inl TypeError)"
  by (simp add: fetch_header_def is_header_name_def is_tchar_def js_simps)

lemma update_headers:
  "fetch_headers [(js ''Content-Type'', js ''application/json''), (js ''X-Edit-Token'', token)] =
     (if sendable_value token
      then Inr [(js ''Content-Type'', js ''application/json''),
                (js ''X-Edit-Token'', normalize_value token)]
      else Inl TypeError)"
  by (simp add: content_type_header edit_token_header)

lemma delete_headers:
  "fetch_headers [(js ''X-Edit-Token'', token)] =
     (if sendable_value token then Inr [(js ''X-Edit-Token'', normalize_value token)]
      else Inl TypeError)"
  by (simp add: edit_token_header)

lemma update_sent:
  assumes "updateLink_request env linkId token data = Inr rq"
  shows "req_headers rq =
        [(js ''Content-Type'', js ''application/json''), (js ''X-Edit-Token'', token)]"
    and "updateLink_request env linkId token' data =
         Inr (rq\<lparr>req_headers :=
                [(js ''Content-Type'', js ''application/json''), (js ''X-Edit-Token'', token')]\<rparr>)"
    and "sendable_value token \<Longrightarrow>
         wire_request rq =
           Inr (rq\<lparr>req_headers :=
                  [(js ''Content-Type'', js ''application/json''),
                   (js ''X-Edit-Token'', normalize_value token)]\<rparr>)"
    and "sendable_value token \<Longrightarrow>
         net (rq\<lparr>req_headers :=
                  [(js ''Content-Type'', js ''application/json''),
                   (js ''X-Edit-Token'', normalize_value token)]\<rparr>) = Inl e \<Longrightarrow>
         updateLink env (browser_fetch exposed net) linkId token data = Inl e"
    and "sendable_value token \<Longrightarrow>
         net (rq\<lparr>req_headers :=
                  [(js ''Content-Type'', js ''application/json''),
                   (js ''X-Edit-Token'', normalize_value token)]\<rparr>) = Inr res \<and> res_ok res \<Longrightarrow>
         updateLink env (browser_fetch exposed net) linkId token data = res_json res"
    and "\<not> sendable_value token \<Longrightarrow> wire_request rq = Inl TypeError"
    and "\<not> sendable_value token \<Longrightarrow>
         updateLink env (browser_fetch exposed net) linkId token data = Inl TypeError"
proof -
  from assms show h: "req_headers rq =
        [(js ''Content-Type'', js ''application/json''), (js ''X-Edit-Token'', token)]"
    by (auto simp: updateLink_request_def split: sum.splits)
  from assms show "updateLink_request env linkId token' data =
         Inr (rq\<lparr>req_headers :=
                [(js ''Content-Type'', js ''application/json''), (js ''X-Edit-Token'', token')]\<rparr>)"
    by (auto simp: updateLink_request_def split: sum.splits)
  from assms have m: "req_redirect rq = None"
    by (auto simp: updateLink_request_def split: sum.splits)
  {
    assume s: "sendable_value token"
    then show w: "wire_request rq =
           Inr (rq\<lparr>req_headers :=
                  [(js ''Content-Type'', js ''application/json''),
                   (js ''X-Edit-Token'', normalize_value token)]\<rparr>)"
      by (simp add: wire_request_def h update_headers del: fetch_headers.simps)
    {
      assume "net (rq\<lparr>req_headers :=
                  [(js ''Content-Type'', js ''application/json''),
                   (js ''X-Edit-Token'', normalize_value token)]\<rparr>) = Inl e"
      then show "updateLink env (browser_fetch exposed net) linkId token data = Inl e"
        by (simp add: updateLink_def assms browser_fetch_def w)
    }
    {
      assume "net (rq\<lparr>req_headers :=
                  [(js ''Content-Type'', js ''application/json''),
                   (js ''X-Edit-Token'', normalize_value token)]\<rparr>) = Inr res \<and> res_ok res"
      then show "updateLink env (browser_fetch exposed net) linkId token data = res_json res"
        by (simp add: updateLink_def assms browser_fetch_def w m res_ok_def)
    }
  }
  {
    assume s: "\<not> sendable_value token"
    then show w: "wire_request rq = Inl TypeError"
      by (simp add: wire_request_def h update_headers del: fetch_headers.simps)
    then show "updateLink env (browser_fetch exposed net) linkId token data = Inl TypeError"
      by (simp add: updateLink_def assms browser_fetch_def)
  }
qed

lemma delete_sent:
  assumes "deleteLink_request env linkId token = Inr rq"
  shows "req_headers rq = [(js ''X-Edit-Token'', token)]"
    and "deleteLink_request env linkId token' =
         Inr (rq\<lparr>req_headers := [(js ''X-Edit-Token'', token')]\<rparr>)"
    and "sendable_value token \<Longrightarrow>
         wire_request rq =
           Inr (rq\<lparr>req_headers := [(js ''X-Edit-Token'', normalize_value token)]\<rparr>)"
    and "sendable_value token \<Longrightarrow>
         net (rq\<lparr>req_headers := [(js ''X-Edit-Token'', normalize_value token)]\<rparr>) = Inl e \<Longrightarrow>
         deleteLink env (browser_fetch exposed net) linkId token = Inl e"
    and "sendable_value token \<Longrightarrow>
         net (rq\<lparr>req_headers := [(js ''X-Edit-Token'', normalize_value token)]\<rparr>) = Inr res \<and>
         res_ok res \<Longrightarrow>
         deleteLink env (browser_fetch exposed net) linkId token = res_json res"
    and "\<not> sendable_value token \<Longrightarrow> wire_request rq = Inl TypeError"
    and "\<not> sendable_value token \<Longrightarrow>
         deleteLink env (browser_fetch exposed net) linkId token = Inl TypeError"
proof -
  from assms show h: "req_headers rq = [(js ''X-Edit-Token'', token)]"
    by (auto simp: deleteLink_request_def split: sum.splits)
  from assms show "deleteLink_request env linkId token' =
         Inr (rq\<lparr>req_headers := [(js ''X-Edit-Token'', token')]\<rparr>)"
    by (auto simp: deleteLink_request_def split: sum.splits)
  from assms have m: "req_redirect rq = None"
    by (auto simp: deleteLink_request_def split: sum.splits)
  {
    assume s: "sendable_value token"
    then show w: "wire_request rq =
           Inr (rq\<lparr>req_headers := [(js ''X-Edit-Token'', normalize_value token)]\<rparr>)"
      by (simp add: wire_request_def h delete_headers del: fetch_headers.simps)
    {
      assume "net (rq\<lparr>req_headers := [(js ''X-Edit-Token'', normalize_value token)]\<rparr>) = Inl e"
      then show "deleteLink env (browser_fetch exposed net) linkId token = Inl e"
        by (simp add: deleteLink_def assms browser_fetch_def w)
    }
    {
      assume "net (rq\<lparr>req_headers := [(js ''X-Edit-Token'', normalize_value token)]\<rparr>) = Inr res \<and>
         res_ok res"
      then show "deleteLink env (browser_fetch exposed net) linkId token = res_json res"
        by (simp add: deleteLink_def assms browser_fetch_def w m res_ok_def)
    }
  }
  {
    assume s: "\<not> sendable_value token"
    then show w: "wire_request rq = Inl TypeError"
      by (simp add: wire_request_def h delete_headers del: fetch_headers.simps)
    then show "deleteLink env (browser_fetch exposed net) linkId token = Inl TypeError"
      by (simp add: deleteLink_def assms browser_fetch_def)
  }
qed

text \<open>
  C3 (amended). \<open>updateLink\<close> and \<open>deleteLink\<close> put the token into the header
  X-Edit-Token of the call and nowhere else: for any other token the call is the same
  but for that header. The request is sent when the link id can be encoded and the
  token is a header value (no code unit above \<open>0xFF\<close> and, once stripped, no NUL, LF or
  CR); the function then settles by what the network answers to exactly this request,
  whose X-Edit-Token is the token stripped of leading and trailing HTTP whitespace: the
  token itself when it neither starts nor ends with whitespace. Otherwise no request is
  sent, and the function throws whatever the network would have done: the URIError of
  the link id, or the TypeError of the token.
\<close>

theorem edit_token_in_header_only:
  "(updateLink_request env linkId token data = Inr rq \<longrightarrow>
      req_headers rq =
        [(js ''Content-Type'', js ''application/json''), (js ''X-Edit-Token'', token)] \<and>
      (\<forall>token'. updateLink_request env linkId token' data =
         Inr (rq\<lparr>req_headers :=
                [(js ''Content-Type'', js ''application/json''), (js ''X-Edit-Token'', token')]\<rparr>)) \<and>
      (sendable_value token \<longrightarrow>
         wire_request rq =
           Inr (rq\<lparr>req_headers :=
                  [(js ''Content-Type'', js ''application/json''),
                   (js ''X-Edit-Token'', normalize_value token)]\<rparr>) \<and>
         (\<forall>e. net (rq\<lparr>req_headers :=
                  [(js ''Content-Type'', js ''application/json''),
                   (js ''X-Edit-Token'', normalize_value token)]\<rparr>) = Inl e \<longrightarrow>
              updateLink env (browser_fetch exposed net) linkId token data = Inl e) \<and>
         (\<forall>res. net (rq\<lparr>req_headers :=
                  [(js ''Content-Type'', js ''application/json''),
                   (js ''X-Edit-Token'', normalize_value token)]\<rparr>) = Inr res \<and> res_ok res \<longrightarrow>
              updateLink env (browser_fetch exposed net) linkId token data = res_json res)) \<and>
      (\<not> sendable_value token \<longrightarrow>
         wire_request rq = Inl TypeError \<and>
         updateLink env (browser_fetch exposed net) linkId token data = Inl TypeError)) \<and>
   (deleteLink_request env linkId token = Inr rq' \<longrightarrow>
      req_headers rq' = [(js ''X-Edit-Token'', token)] \<and>
      (\<forall>token'. deleteLink_request env linkId token' =
         Inr (rq'\<lparr>req_headers := [(js ''X-Edit-Token'', token')]\<rparr>)) \<and>
      (sendable_value token \<longrightarrow>
         wire_request rq' =
           Inr (rq'\<lparr>req_headers := [(js ''X-Edit-Token'', normalize_value token)]\<rparr>) \<and>
         (\<forall>e. net (rq'\<lparr>req_headers := [(js ''X-Edit-Token'', normalize_value token)]\<rparr>) = Inl e \<longrightarrow>
              deleteLink env (browser_fetch exposed net) linkId token = Inl e) \<and>
         (\<forall>res. net (rq'\<lparr>req_headers := [(js ''X-Edit-Token'', normalize_value token)]\<rparr>) =
                  Inr res \<and> res_ok res \<longrightarrow>
              deleteLink env (browser_fetch exposed net) linkId token = res_json res)) \<and>
      (\<not> sendable_value token \<longrightarrow>
         wire_request rq' = Inl TypeError \<and>
         deleteLink env (browser_fetch exposed net) linkId token = Inl TypeError)) \<and>
   (encodeURIComponent linkId = Inl e' \<longrightarrow>
      updateLink env (browser_fetch exposed net) linkId token data = Inl e' \<and>
      deleteLink env (browser_fetch exposed net) linkId token = Inl e') \<and>
   (token = [] \<or> \<not> is_http_whitespace (hd token) \<and> \<not> is_http_whitespace (last token) \<longrightarrow>
      normalize_value token = token)"
proof (intro conjI impI allI)
  assume r: "updateLink_request env linkId token data = Inr rq"
  show "req_headers rq =
        [(js ''Content-Type'', js ''application/json''), (js ''X-Edit-Token'', token)]"
    by (rule update_sent(1) [OF r])
  show "updateLink_request env linkId token' data =
         Inr (rq\<lparr>req_headers :=
                [(js ''Content-Type'', js ''application/json''), (js ''X-Edit-Token'', token')]\<rparr>)"
    for token'
    by (rule update_sent(2) [OF r])
  {
    assume s: "sendable_value token"
    show "wire_request rq =
           Inr (rq\<lparr>req_headers :=
                  [(js ''Content-Type'', js ''application/json''),
                   (js ''X-Edit-Token'', normalize_value token)]\<rparr>)"
      by (rule update_sent(3) [OF r s])
    show "updateLink env (browser_fetch exposed net) linkId token data = Inl e"
      if "net (rq\<lparr>req_headers :=
                  [(js ''Content-Type'', js ''application/json''),
                   (js ''X-Edit-Token'', normalize_value token)]\<rparr>) = Inl e" for e
      by (rule update_sent(4) [where net = net, OF r s that])
    show "updateLink env (browser_fetch exposed net) linkId token data = res_json res"
      if "net (rq\<lparr>req_headers :=
                  [(js ''Content-Type'', js ''application/json''),
                   (js ''X-Edit-Token'', normalize_value token)]\<rparr>) = Inr res \<and> res_ok res" for res
      by (rule update_sent(5) [where net = net, OF r s that])
  }
  {
    assume s: "\<not> sendable_value token"
    show "wire_request rq = Inl TypeError"
      by (rule update_sent(6) [OF r s])
    show "updateLink env (browser_fetch exposed net) linkId token data = Inl TypeError"
      by (rule update_sent(7) [OF r s])
  }
next
  assume r: "deleteLink_request env linkId token = Inr rq'"
  show "req_headers rq' = [(js ''X-Edit-Token'', token)]"
    by (rule delete_sent(1) [OF r])
  show "deleteLink_request env linkId token' =
         Inr (rq'\<lparr>req_headers := [(js ''X-Edit-Token'', token')]\<rparr>)" for token'
    by (rule delete_sent(2) [OF r])
  {
    assume s: "sendable_value token"
    show "wire_request rq' =
           Inr (rq'\<lparr>req_headers := [(js ''X-Edit-Token'', normalize_value token)]\<rparr>)"
      by (rule delete_sent(3) [OF r s])
    show "deleteLink env (browser_fetch exposed net) linkId token = Inl e"
      if "net (rq'\<lparr>req_headers := [(js ''X-Edit-Token'', normalize_value token)]\<rparr>) = Inl e" for e
      by (rule delete_sent(4) [where net = net, OF r s that])
    show "deleteLink env (browser_fetch exposed net) linkId token = res_json res"
      if "net (rq'\<lparr>req_headers := [(js ''X-Edit-Token'', normalize_value token)]\<rparr>) =
                  Inr res \<and> res_ok res" for res
      by (rule delete_sent(5) [where net = net, OF r s that])
  }
  {
    assume s: "\<not> sendable_value token"
    show "wire_request rq' = Inl TypeError"
      by (rule delete_sent(6) [OF r s])
    show "deleteLink env (browser_fetch exposed net) linkId token = Inl TypeError"
      by (rule delete_sent(7) [OF r s])
  }
next
  assume "encodeURIComponent linkId = Inl e'"
  then show "updateLink env (browser_fetch exposed net) linkId token data = Inl e'"
    "deleteLink env (browser_fetch exposed net) linkId token = Inl e'"
    by (simp_all add: updateLink_def deleteLink_def updateLink_request_def deleteLink_request_def)
next
  assume "token = [] \<or> \<not> is_http_whitespace (hd token) \<and> \<not> is_http_whitespace (last token)"
  then show "normalize_value token = token"
    by (rule normalize_value_id)
qed

lemma plain_token:
  "sendable_value (js ''s3cr3t'')" "normalize_value (js ''s3cr3t'') = js ''s3cr3t''"
  "\<not> sendable_value [0x263A]"
  by (simp_all add: sendable_value_def normalize_value_def is_http_whitespace_def js_simps)

lemma padded_token:
  "sendable_value (js '' s3cr3t '')" "normalize_value (js '' s3cr3t '') = js ''s3cr3t''"
  by (simp_all add: sendable_value_def normalize_value_def is_http_whitespace_def js_simps)

lemma update_abc:
  "updateLink_request None (js ''abc'') token [] =
     Inr \<lparr>req_url = js ''http://localhost:8000/api/links/abc'', req_method = js ''PATCH'',
          req_headers = [(js ''Content-Type'', js ''application/json''),
                         (js ''X-Edit-Token'', token)],
          req_body = Some (js ''{}''), req_redirect = None\<rparr>"
  by (simp add: updateLink_request_def uriUnescaped_def emit_def API_BASE_def
      JSON_stringify_def JSON_object_text_def js_simps)

lemma delete_abc:
  "deleteLink_request None (js ''abc'') token =
     Inr \<lparr>req_url = js ''http://localhost:8000/api/links/abc'', req_method = js ''DELETE'',
          req_headers = [(js ''X-Edit-Token'', token)],
          req_body = None, req_redirect = None\<rparr>"
  by (simp add: deleteLink_request_def uriUnescaped_def emit_def API_BASE_def js_simps)

theorem edit_token_in_header_only_witness:
  "sendable_value (js ''s3cr3t'') \<and>
   wire_request
     \<lparr>req_url = js ''http://localhost:8000/api/links/abc'', req_method = js ''PATCH'',
      req_headers = [(js ''Content-Type'', js ''application/json''),
                     (js ''X-Edit-Token'', js ''s3cr3t'')],
      req_body = Some (js ''{}''), req_redirect = None\<rparr> =
     Inr \<lparr>req_url = js ''http://localhost:8000/api/links/abc'', req_method = js ''PATCH'',
          req_headers = [(js ''Content-Type'', js ''application/json''),
                         (js ''X-Edit-Token'', js ''s3cr3t'')],
          req_body = Some (js ''{}''), req_redirect = None\<rparr> \<and>
   updateLink None (browser_fetch (\<lambda>k. True) (fetch_always (json_response 200 example_link)))
     (js ''abc'') (js ''s3cr3t'') [] = Inr example_link \<and>
   deleteLink None (browser_fetch (\<lambda>k. True) (fetch_always (json_response 200 example_deleted)))
     (js ''abc'') (js ''s3cr3t'') = Inr example_deleted \<and>
   \<not> sendable_value [0x263A] \<and>
   updateLink None (browser_fetch (\<lambda>k. True) (fetch_always (json_response 200 example_link)))
     (js ''abc'') [0x263A] [] = Inl TypeError"
proof -
  let ?u = "\<lambda>t. \<lparr>req_url = js ''http://localhost:8000/api/links/abc'', req_method = js ''PATCH'',
          req_headers = [(js ''Content-Type'', js ''application/json''),
                         (js ''X-Edit-Token'', t)],
          req_body = Some (js ''{}''), req_redirect = None\<rparr>"
  let ?d = "\<lparr>req_url = js ''http://localhost:8000/api/links/abc'', req_method = js ''DELETE'',
          req_headers = [(js ''X-Edit-Token'', js ''s3cr3t'')],
          req_body = None, req_redirect = None\<rparr>"
  let ?nu = "fetch_always (json_response 200 example_link)"
  let ?nd = "fetch_always (json_response 200 example_deleted)"
  note U = edit_token_in_header_only
    [where net = ?nu and exposed = "\<lambda>k. True" and token = "js ''s3cr3t''" and rq = "?u (js ''s3cr3t'')",
     THEN conjunct1, rule_format, OF update_abc]
  note Us = U [THEN conjunct2, THEN conjunct2, THEN conjunct1, rule_format, OF plain_token(1)]
  note D = edit_token_in_header_only
    [where net = ?nd and exposed = "\<lambda>k. True" and token = "js ''s3cr3t''" and rq' = ?d,
     THEN conjunct2, THEN conjunct1, rule_format, OF delete_abc]
  note Ds = D [THEN conjunct2, THEN conjunct2, THEN conjunct1, rule_format, OF plain_token(1)]
  note B = edit_token_in_header_only
    [where net = ?nu and exposed = "\<lambda>k. True" and token = "[0x263A]" and rq = "?u [0x263A]",
     THEN conjunct1, rule_format, OF update_abc]
  note Bs = B [THEN conjunct2, THEN conjunct2, THEN conjunct2, rule_format, OF plain_token(3)]
  have w: "wire_request (?u (js ''s3cr3t'')) = Inr (?u (js ''s3cr3t''))"
    using Us [THEN conjunct1] by (simp add: plain_token(2))
  have ru: "updateLink None (browser_fetch (\<lambda>k. True) ?nu) (js ''abc'') (js ''s3cr3t'') [] =
      Inr example_link"
    using Us [THEN conjunct2, THEN conjunct2, rule_format, of "json_response 200 example_link"]
    by (simp add: fetch_always_def json_response_ok)
  have rd: "deleteLink None (browser_fetch (\<lambda>k. True) ?nd) (js ''abc'') (js ''s3cr3t'') =
      Inr example_deleted"
    using Ds [THEN conjunct2, THEN conjunct2, rule_format, of "json_response 200 example_deleted"]
    by (simp add: fetch_always_def json_response_ok)
  from w ru rd plain_token(1,3) Bs [THEN conjunct2] show ?thesis
    by blast
qed

text \<open>
  C3 as stated fails for a token pasted with a space before and after it: the header of
  the request that is sent is the token without the spaces, not exactly the given token.
\<close>

theorem padded_token_counterexample:
  "updateLink_request None (js ''abc'') (js '' s3cr3t '') [] =
     Inr \<lparr>req_url = js ''http://localhost:8000/api/links/abc'', req_method = js ''PATCH'',
          req_headers = [(js ''Content-Type'', js ''application/json''),
                         (js ''X-Edit-Token'', js '' s3cr3t '')],
          req_body = Some (js ''{}''), req_redirect = None\<rparr> \<and>
   wire_request
     \<lparr>req_url = js ''http://localhost:8000/api/links/abc'', req_method = js ''PATCH'',
      req_headers = [(js ''Content-Type'', js ''application/json''),
                     (js ''X-Edit-Token'', js '' s3cr3t '')],
      req_body = Some (js ''{}''), req_redirect = None\<rparr> =
     Inr \<lparr>req_url = js ''http://localhost:8000/api/links/abc'', req_method = js ''PATCH'',
          req_headers = [(js ''Content-Type'', js ''application/json''),
                         (js ''X-Edit-Token'', js ''s3cr3t'')],
          req_body = Some (js ''{}''), req_redirect = None\<rparr> \<and>
   js ''s3cr3t'' \<noteq> js '' s3cr3t ''"
proof (intro conjI)
  show "updateLink_request None (js ''abc'') (js '' s3cr3t '') [] =
     Inr \<lparr>req_url = js ''http://localhost:8000/api/links/abc'', req_method = js ''PATCH'',
          req_headers = [(js ''Content-Type'', js ''application/json''),
                         (js ''X-Edit-Token'', js '' s3cr3t '')],
          req_body = Some (js ''{}''), req_redirect = None\<rparr>"
    by (rule update_abc)
  show "wire_request
     \<lparr>req_url = js ''http://localhost:8000/api/links/abc'', req_method = js ''PATCH'',
      req_headers = [(js ''Content-Type'', js ''application/json''),
                     (js ''X-Edit-Token'', js '' s3cr3t '')],
      req_body = Some (js ''{}''), req_redirect = None\<rparr> =
     Inr \<lparr>req_url = js ''http://localhost:8000/api/links/abc'', req_method = js ''PATCH'',
          req_headers = [(js ''Content-Type'', js ''application/json''),
                         (js ''X-Edit-Token'', js ''s3cr3t'')],
          req_body = Some (js ''{}''), req_redirect = None\<rparr>"
    by (simp add: wire_request_def update_headers padded_token del: fetch_headers.simps)
  show "js ''s3cr3t'' \<noteq> js '' s3cr3t ''"
    by (simp add: js_simps)
qed



section \<open>The request of create\<close>



text \<open>
  The redirect code of the create form is set at the start and by the select only, so in
  every state the page can reach it is one of the four codes.
\<close>

lemma ui_step_code: "redirect_code (createForm s) \<noteq> None \<Longrightarrow>
   redirect_code (createForm (ui_step env s ev)) \<noteq> None"
  by (cases ev) (auto simp: onCreate_reset_def onCreate_settle_def onUpdate_reset_def
      onUpdate_settle_def onDelete_reset_def onDelete_settle_def testRedirect_reset_def
      testRedirect_settle_def split: sum.splits)

lemma ui_run_code: "redirect_code (createForm s) \<noteq> None \<Longrightarrow>
   redirect_code (createForm (ui_run env s evs)) \<noteq> None"
  unfolding ui_run_def
proof (induction evs arbitrary: s)
  case Nil
  then show ?case by simp
next
  case (Cons ev evs)
  from Cons.prems have "redirect_code (createForm (ui_step env s ev)) \<noteq> None"
    by (rule ui_step_code)
  then show ?case using Cons.IH by simp
qed

lemma code_number_range: "code_number c \<in> {301, 302, 307, 308}"
  by (cases c) simp_all

lemma onCreate_members_code:
  "redirect_code (createForm s) = Some c \<Longrightarrow>
   map_of (onCreate_members s) (js ''redirect_code'') = Some (Number_toString (code_number c))"
  using key_distinct
  by (auto simp: onCreate_members_def onCreate_payload_def CreateLinkPayload_object_def
      split: option.splits)

lemma onCreate_body:
  "req_body (createLink_request env (onCreate_payload s)) =
     Some (JSON_object_text (onCreate_members s))"
  by (simp add: createLink_request_def JSON_stringify_def CreateLinkPayload_object_def
      onCreate_members_def)

lemma number_texts:
  "Number_toString 301 = js ''301''" "Number_toString 302 = js ''302''"
  "Number_toString 307 = js ''307''" "Number_toString 308 = js ''308''"
  by (simp_all add: Number_toString_def decimal.simps digit_unit_def js_simps)

lemma code_text_cases:
  "Number_toString (code_number R301) = js ''301''"
  "Number_toString (code_number R302) = js ''302''"
  "Number_toString (code_number R307) = js ''307''"
  "Number_toString (code_number R308) = js ''308''"
  by (simp_all add: Number_toString_def decimal.simps digit_unit_def js_simps)

lemma select_code:
  "map_of (onCreate_members (ui_step env s (SelectCreateCode c))) (js ''redirect_code'') =
     Some (Number_toString (code_number c))"
  by (rule onCreate_members_code) simp

text \<open>
  C6. In every state the page can reach, the body of the request \<open>onCreate\<close> sends is
  the JSON text whose member redirect_code is 301, 302, 307 or 308; from the initial
  state it is 301; each of the four options of the select puts its own number there.
  \<open>onCreate\<close> gives this request to \<open>fetch\<close>: it shows the error when \<open>fetch\<close> rejects
  it, and the parsed body when the answer is ok.
\<close>

theorem create_request_redirect_code:
  "req_body (createLink_request env (onCreate_payload (ui_run env initial_state evs))) =
     Some (JSON_object_text (onCreate_members (ui_run env initial_state evs))) \<and>
   map_of (onCreate_members (ui_run env initial_state evs)) (js ''redirect_code'') \<in>
     set [Some (js ''301''), Some (js ''302''), Some (js ''307''), Some (js ''308'')] \<and>
   map_of (onCreate_members initial_state) (js ''redirect_code'') = Some (js ''301'') \<and>
   map_of (onCreate_members (ui_step env s (SelectCreateCode R301))) (js ''redirect_code'') =
     Some (js ''301'') \<and>
   map_of (onCreate_members (ui_step env s (SelectCreateCode R302))) (js ''redirect_code'') =
     Some (js ''302'') \<and>
   map_of (onCreate_members (ui_step env s (SelectCreateCode R307))) (js ''redirect_code'') =
     Some (js ''307'') \<and>
   map_of (onCreate_members (ui_step env s (SelectCreateCode R308))) (js ''redirect_code'') =
     Some (js ''308'') \<and>
   (fetch (createLink_request env (onCreate_payload s)) = Inl e \<longrightarrow>
      createError (onCreate env fetch s) = Some (caught_message e)) \<and>
   (fetch (createLink_request env (onCreate_payload s)) = Inr res \<and> res_ok res \<and>
    res_json res = Inr v \<longrightarrow>
      createResult (onCreate env fetch s) = v)"
proof (intro conjI impI)
  show "req_body (createLink_request env (onCreate_payload (ui_run env initial_state evs))) =
     Some (JSON_object_text (onCreate_members (ui_run env initial_state evs)))"
    by (rule onCreate_body)
next
  have "redirect_code (createForm initial_state) \<noteq> None"
    by (simp add: initial_state_def)
  then have "redirect_code (createForm (ui_run env initial_state evs)) \<noteq> None"
    by (rule ui_run_code)
  then obtain c where c: "redirect_code (createForm (ui_run env initial_state evs)) = Some c"
    by auto
  have "Some (Number_toString (code_number c)) \<in>
      set [Some (js ''301''), Some (js ''302''), Some (js ''307''), Some (js ''308'')]"
    by (cases c) (simp_all add: number_texts)
  then show "map_of (onCreate_members (ui_run env initial_state evs)) (js ''redirect_code'') \<in>
     set [Some (js ''301''), Some (js ''302''), Some (js ''307''), Some (js ''308'')]"
    unfolding onCreate_members_code [OF c] .
next
  have "redirect_code (createForm initial_state) = Some R301"
    by (simp add: initial_state_def)
  from onCreate_members_code [OF this]
  show "map_of (onCreate_members initial_state) (js ''redirect_code'') = Some (js ''301'')"
    unfolding code_text_cases .
next
  show "map_of (onCreate_members (ui_step env s (SelectCreateCode R301))) (js ''redirect_code'') =
     Some (js ''301'')"
    using select_code [of env s R301] unfolding code_text_cases .
  show "map_of (onCreate_members (ui_step env s (SelectCreateCode R302))) (js ''redirect_code'') =
     Some (js ''302'')"
    using select_code [of env s R302] unfolding code_text_cases .
  show "map_of (onCreate_members (ui_step env s (SelectCreateCode R307))) (js ''redirect_code'') =
     Some (js ''307'')"
    using select_code [of env s R307] unfolding code_text_cases .
  show "map_of (onCreate_members (ui_step env s (SelectCreateCode R308))) (js ''redirect_code'') =
     Some (js ''308'')"
    using select_code [of env s R308] unfolding code_text_cases .
next
  assume "fetch (createLink_request env (onCreate_payload s)) = Inl e"
  then show "createError (onCreate env fetch s) = Some (caught_message e)"
    by (simp add: onCreate_def createLink_def onCreate_settle_def onCreate_reset_def)
next
  assume "fetch (createLink_request env (onCreate_payload s)) = Inr res \<and> res_ok res \<and>
    res_json res = Inr v"
  then show "createResult (onCreate env fetch s) = v"
    by (simp add: onCreate_def createLink_def onCreate_settle_def onCreate_reset_def)
qed

theorem create_request_redirect_code_witness:
  "map_of (onCreate_members (ui_run None initial_state
      [InputCreateTarget (js ''https://example.com''), SelectCreateCode R307]))
     (js ''redirect_code'') \<in>
     set [Some (js ''301''), Some (js ''302''), Some (js ''307''), Some (js ''308'')] \<and>
   createError (onCreate None (\<lambda>rq. Inl (JsError (js ''TypeError'') (js ''Failed to fetch'')))
     initial_state) = Some (js ''Failed to fetch'') \<and>
   createResult (onCreate None (fetch_always (json_response 201 example_created)) initial_state) =
     example_created"
proof -
  have m: "caught_message (JsError (js ''TypeError'') (js ''Failed to fetch'')) =
      js ''Failed to fetch''"
    by (simp add: caught_message_def js_simps)
  have 1: "createError (onCreate None (\<lambda>rq. Inl (JsError (js ''TypeError'') (js ''Failed to fetch'')))
     initial_state) = Some (js ''Failed to fetch'')"
    using create_request_redirect_code
      [where fetch = "\<lambda>rq. Inl (JsError (js ''TypeError'') (js ''Failed to fetch''))"
         and env = None and s = initial_state
         and e = "JsError (js ''TypeError'') (js ''Failed to fetch'')",
       THEN conjunct2, THEN conjunct2, THEN conjunct2, THEN conjunct2, THEN conjunct2,
       THEN conjunct2, THEN conjunct2, THEN conjunct1, rule_format]
    by (simp add: m)
  have 2: "createResult (onCreate None (fetch_always (json_response 201 example_created))
      initial_state) = example_created"
    using create_request_redirect_code
      [where fetch = "fetch_always (json_response 201 example_created)"
         and env = None and s = initial_state and res = "json_response 201 example_created"
         and v = example_created,
       THEN conjunct2, THEN conjunct2, THEN conjunct2, THEN conjunct2, THEN conjunct2,
       THEN conjunct2, THEN conjunct2, THEN conjunct2, rule_format]
    by (simp add: fetch_always_def json_response_def res_ok_def)
  note 3 = create_request_redirect_code
      [where env = None
         and evs = "[InputCreateTarget (js ''https://example.com''), SelectCreateCode R307]",
       THEN conjunct2, THEN conjunct1]
  from 1 2 3 show ?thesis by blast
qed

section \<open>What the three API functions settle with\<close>

text \<open>
  C5 (amended). Each of \<open>createLink\<close>, \<open>updateLink\<close> and \<open>deleteLink\<close> throws what
  \<open>fetch\<close> rejects with, and (update, delete) what \<open>encodeURIComponent\<close> throws before
  the call. When \<open>fetch\<close> resolves to a response, it throws if and only if the status
  is not ok or \<open>res.json()\<close> rejects. On a status that is not ok it throws an Error
  whose message is the body text when \<open>res.text()\<close> resolves, and the rejection of
  \<open>res.text()\<close> when that rejects; on an ok status it settles as \<open>res.json()\<close> does:
  with the parsed body, or with the rejection when the body is not JSON.
\<close>

theorem api_call_outcome:
  "(fetch (createLink_request env payload) = Inl e \<longrightarrow> createLink env fetch payload = Inl e) \<and>
   (fetch (createLink_request env payload) = Inr res \<longrightarrow>
      (isl (createLink env fetch payload) \<longleftrightarrow> \<not> res_ok res \<or> isl (res_json res)) \<and>
      (\<not> res_ok res \<and> res_text res = Inr t \<longrightarrow>
         createLink env fetch payload = Inl (new_Error t)) \<and>
      (\<not> res_ok res \<and> res_text res = Inl e \<longrightarrow> createLink env fetch payload = Inl e) \<and>
      (res_ok res \<longrightarrow> createLink env fetch payload = res_json res)) \<and>
   (updateLink_request env linkId token data = Inl e \<longrightarrow>
      updateLink env fetch linkId token data = Inl e) \<and>
   (updateLink_request env linkId token data = Inr rq \<and> fetch rq = Inl e \<longrightarrow>
      updateLink env fetch linkId token data = Inl e) \<and>
   (updateLink_request env linkId token data = Inr rq \<and> fetch rq = Inr res \<longrightarrow>
      (isl (updateLink env fetch linkId token data) \<longleftrightarrow> \<not> res_ok res \<or> isl (res_json res)) \<and>
      (\<not> res_ok res \<and> res_text res = Inr t \<longrightarrow>
         updateLink env fetch linkId token data = Inl (new_Error t)) \<and>
      (\<not> res_ok res \<and> res_text res = Inl e \<longrightarrow>
         updateLink env fetch linkId token data = Inl e) \<and>
      (res_ok res \<longrightarrow> updateLink env fetch linkId token data = res_json res)) \<and>
   (deleteLink_request env linkId token = Inl e \<longrightarrow>
      deleteLink env fetch linkId token = Inl e) \<and>
   (deleteLink_request env linkId token = Inr rq' \<and> fetch rq' = Inl e \<longrightarrow>
      deleteLink env fetch linkId token = Inl e) \<and>
   (deleteLink_request env linkId token = Inr rq' \<and> fetch rq' = Inr res \<longrightarrow>
      (isl (deleteLink env fetch linkId token) \<longleftrightarrow> \<not> res_ok res \<or> isl (res_json res)) \<and>
      (\<not> res_ok res \<and> res_text res = Inr t \<longrightarrow>
         deleteLink env fetch linkId token = Inl (new_Error t)) \<and>
      (\<not> res_ok res \<and> res_text res = Inl e \<longrightarrow>
         deleteLink env fetch linkId token = Inl e) \<and>
      (res_ok res \<longrightarrow> deleteLink env fetch linkId token = res_json res))"
  by (auto simp: createLink_def updateLink_def deleteLink_def split: sum.splits)

theorem api_call_outcome_witness:
  "createLink None
     (fetch_always \<lparr>res_status = 409, res_headers = [], res_text = Inr (js ''link_id taken''),
                    res_json = Inl (JsError (js ''SyntaxError'') (js ''Unexpected token''))\<rparr>)
     \<lparr>target_url = js ''https://example.com'', link_id = Some (js ''promo''),
      redirect_code = Some R301\<rparr> = Inl (new_Error (js ''link_id taken'')) \<and>
   updateLink None (fetch_always (json_response 200 example_link))
     (js ''abc'') (js ''s3cr3t'') [] = Inr example_link \<and>
   deleteLink None
     (fetch_always \<lparr>res_status = 403, res_headers = [],
                    res_text = Inl (JsError (js ''TypeError'') (js ''network error'')),
                    res_json = Inl (JsError (js ''TypeError'') (js ''network error''))\<rparr>)
     (js ''abc'') (js ''wrong'') = Inl (JsError (js ''TypeError'') (js ''network error'')) \<and>
   deleteLink None (\<lambda>rq. Inl (JsError (js ''TypeError'') (js ''Failed to fetch'')))
     (js ''abc'') (js ''wrong'') = Inl (JsError (js ''TypeError'') (js ''Failed to fetch''))"
proof -
  let ?c = "\<lparr>res_status = 409, res_headers = [], res_text = Inr (js ''link_id taken''),
                    res_json = Inl (JsError (js ''SyntaxError'') (js ''Unexpected token''))\<rparr>"
  let ?d = "\<lparr>res_status = 403, res_headers = [],
                    res_text = Inl (JsError (js ''TypeError'') (js ''network error'')),
                    res_json = Inl (JsError (js ''TypeError'') (js ''network error''))\<rparr>"
  let ?p = "\<lparr>target_url = js ''https://example.com'', link_id = Some (js ''promo''),
      redirect_code = Some R301\<rparr>"
  obtain ru where ru: "updateLink_request None (js ''abc'') (js ''s3cr3t'') [] = Inr ru"
    using plain_id_requests(1) by blast
  obtain rd where rd: "deleteLink_request None (js ''abc'') (js ''wrong'') = Inr rd"
    using plain_id_requests(2) by blast
  have ok: "\<not> res_ok ?c" "\<not> res_ok ?d"
    by (simp_all add: res_ok_def)
  have 1: "createLink None (fetch_always ?c) ?p = Inl (new_Error (js ''link_id taken''))"
    using api_call_outcome
      [where fetch = "fetch_always ?c" and env = None and payload = ?p and res = ?c
         and t = "js ''link_id taken''",
       THEN conjunct2, THEN conjunct1, rule_format, THEN conjunct2, THEN conjunct1, rule_format]
      ok
    by (simp add: fetch_always_def)
  have 2: "updateLink None (fetch_always (json_response 200 example_link))
     (js ''abc'') (js ''s3cr3t'') [] = Inr example_link"
    using api_call_outcome
      [where fetch = "fetch_always (json_response 200 example_link)" and env = None
         and linkId = "js ''abc''" and token = "js ''s3cr3t''" and data = "[]" and rq = ru
         and res = "json_response 200 example_link",
       THEN conjunct2, THEN conjunct2, THEN conjunct2, THEN conjunct2, THEN conjunct1,
       rule_format, THEN conjunct2, THEN conjunct2, THEN conjunct2, rule_format]
      ru
    by (simp add: fetch_always_def json_response_ok)
  have 3: "deleteLink None (fetch_always ?d) (js ''abc'') (js ''wrong'') =
      Inl (JsError (js ''TypeError'') (js ''network error''))"
    using api_call_outcome
      [where fetch = "fetch_always ?d" and env = None
         and linkId = "js ''abc''" and token = "js ''wrong''" and rq' = rd and res = ?d
         and e = "JsError (js ''TypeError'') (js ''network error'')",
       THEN conjunct2, THEN conjunct2, THEN conjunct2, THEN conjunct2, THEN conjunct2,
       THEN conjunct2, THEN conjunct2,
       rule_format, THEN conjunct2, THEN conjunct2, THEN conjunct1, rule_format]
      rd ok
    by (simp add: fetch_always_def)
  have 4: "deleteLink None (\<lambda>rq. Inl (JsError (js ''TypeError'') (js ''Failed to fetch'')))
     (js ''abc'') (js ''wrong'') = Inl (JsError (js ''TypeError'') (js ''Failed to fetch''))"
    using api_call_outcome
      [where fetch = "\<lambda>rq. Inl (JsError (js ''TypeError'') (js ''Failed to fetch''))"
         and env = None and linkId = "js ''abc''" and token = "js ''wrong''" and rq' = rd
         and e = "JsError (js ''TypeError'') (js ''Failed to fetch'')",
       THEN conjunct2, THEN conjunct2, THEN conjunct2, THEN conjunct2, THEN conjunct2,
       THEN conjunct2, THEN conjunct1, rule_format]
      rd
    by simp
  from 1 2 3 4 show ?thesis by blast
qed

text \<open>
  C5 as stated fails: a response with status 200 and an empty body is ok, yet
  \<open>createLink\<close> throws, because \<open>res.json()\<close> rejects with a SyntaxError.
\<close>

theorem createLink_ok_not_json_counterexample:
  "res_ok \<lparr>res_status = 200, res_headers = [], res_text = Inr [],
           res_json = Inl (JsError (js ''SyntaxError'') (js ''Unexpected end of JSON input''))\<rparr> \<and>
   createLink None
     (fetch_always \<lparr>res_status = 200, res_headers = [], res_text = Inr [],
                    res_json = Inl (JsError (js ''SyntaxError'')
                                      (js ''Unexpected end of JSON input''))\<rparr>)
     \<lparr>target_url = js ''https://example.com'', link_id = None, redirect_code = Some R301\<rparr> =
     Inl (JsError (js ''SyntaxError'') (js ''Unexpected end of JSON input''))"
  by (simp add: createLink_def fetch_always_def res_ok_def)

section \<open>The redirect tester\<close>

text \<open>
  C4. The tester asks for \<open>/abc\<close> with method GET and redirect mode manual, and the
  server answers 301 with a Location header. The browser hands the page an
  opaque-redirect response, so the tester shows the status 0 and an empty Location, not
  the status and the Location of the answer on the wire.
\<close>

theorem testRedirect_opaque_redirect:
  "testRedirect_request None (initial_state\<lparr>tester_linkId := js ''abc''\<rparr>) =
     Inr \<lparr>req_url = js ''http://localhost:8000/abc'', req_method = js ''GET'',
          req_headers = [], req_body = None, req_redirect = Some (js ''manual'')\<rparr> \<and>
   tester_status (testRedirect None
      (browser_fetch (\<lambda>k. True)
         (fetch_always \<lparr>res_status = 301,
                        res_headers = [(js ''Location'', js ''https://example.com/'')],
                        res_text = Inr [],
                        res_json = Inl (JsError (js ''SyntaxError'')
                                          (js ''Unexpected end of JSON input''))\<rparr>))
      (initial_state\<lparr>tester_linkId := js ''abc''\<rparr>)) = js ''0'' \<and>
   tester_location (testRedirect None
      (browser_fetch (\<lambda>k. True)
         (fetch_always \<lparr>res_status = 301,
                        res_headers = [(js ''Location'', js ''https://example.com/'')],
                        res_text = Inr [],
                        res_json = Inl (JsError (js ''SyntaxError'')
                                          (js ''Unexpected end of JSON input''))\<rparr>))
      (initial_state\<lparr>tester_linkId := js ''abc''\<rparr>)) = []"
proof -
  let ?s = "initial_state\<lparr>tester_linkId := js ''abc''\<rparr>"
  let ?rq = "\<lparr>req_url = js ''http://localhost:8000/abc'', req_method = js ''GET'',
          req_headers = [], req_body = None, req_redirect = Some (js ''manual'')\<rparr>"
  have r: "testRedirect_request None ?s = Inr ?rq"
    by (simp add: testRedirect_request_def uriUnescaped_def emit_def API_BASE_def js_simps)
  have f: "browser_fetch (\<lambda>k. True)
         (fetch_always \<lparr>res_status = 301,
                        res_headers = [(js ''Location'', js ''https://example.com/'')],
                        res_text = Inr [],
                        res_json = Inl (JsError (js ''SyntaxError'')
                                          (js ''Unexpected end of JSON input''))\<rparr>) ?rq =
      Inr opaque_redirect"
    by (simp add: browser_fetch_def wire_request_def fetch_always_def is_redirect_status_def)
  have d: "decimal 0 = js ''0''"
    by (simp add: decimal.simps digit_unit_def js_simps)
  have h: "Headers_get [] (js ''Location'') = None"
    by (simp add: Headers_get_def)
  show ?thesis
    unfolding testRedirect_def r
    by (simp add: f testRedirect_settle_def testRedirect_reset_def opaque_redirect_def d h)
qed

section \<open>The link id in the request path\<close>

text \<open>
  What \<open>encodeURIComponent\<close> writes consists of unescaped characters and percent
  signs only: the hex digits of an escape are unescaped characters themselves.
\<close>

lemma hex_digit_unescaped: "n < 16 \<Longrightarrow> uriUnescaped (hex_digit n)"
proof -
  assume "n < 16"
  then have "n \<in> {0,1,2,3,4,5,6,7,8,9,10,11,12,13,14,15}"
    by simp arith
  then show ?thesis
    by (auto simp: hex_digit_def uriUnescaped_def)
qed

lemma percent_octet_safe:
  "b < 256 \<Longrightarrow> c \<in> set (percent_octet b) \<Longrightarrow> uriUnescaped c \<or> c = 0x25"
  by (auto simp: percent_octet_def intro!: hex_digit_unescaped)

lemma utf8_octets_bound: "cp < 0x110000 \<Longrightarrow> b \<in> set (utf8_octets cp) \<Longrightarrow> b < 256"
  by (auto simp: utf8_octets_def split: if_splits)

lemma percent_escape_safe:
  "cp < 0x110000 \<Longrightarrow> c \<in> set (percent_escape cp) \<Longrightarrow> uriUnescaped c \<or> c = 0x25"
  by (auto simp: percent_escape_def dest!: utf8_octets_bound percent_octet_safe)

lemma pair_code_point_bound:
  "is_lead c \<Longrightarrow> is_trail d \<Longrightarrow> pair_code_point c d < 0x110000"
proof -
  assume "is_lead c" "is_trail d"
  then have "unat c \<le> 0xDBFF" "unat d \<le> 0xDFFF"
    by (simp_all add: is_lead_def is_trail_def word_le_nat_alt)
  then show ?thesis
    unfolding pair_code_point_def by arith
qed

lemma unit_bound: "unat (c :: 16 word) < 0x110000"
  using unsigned_less [of c, where 'a = nat] by simp

lemma emit_Inr: "emit xs r = Inr out \<longleftrightarrow> (\<exists>ys. r = Inr ys \<and> out = xs @ ys)"
  by (cases r) (auto simp: emit_def)

lemma encodeURIComponent_safe:
  "encodeURIComponent s = Inr out \<Longrightarrow> c \<in> set out \<Longrightarrow> uriUnescaped c \<or> c = 0x25"
proof (induction s arbitrary: out rule: encodeURIComponent.induct)
  case 1
  then show ?case by simp
next
  case (2 u us)
  show ?case
  proof (cases "uriUnescaped u")
    case True
    with "2.prems" "2.IH"(1) show ?thesis
      by (auto simp: emit_Inr)
  next
    case False
    show ?thesis
    proof (cases "is_lead u")
      case lead: True
      with False "2.prems" obtain d ds ys where
        us: "us = d # ds" and d: "is_trail d" and ys: "encodeURIComponent ds = Inr ys"
        and out: "out = percent_escape (pair_code_point u d) @ ys"
        by (auto simp: emit_Inr split: list.splits if_splits)
      from "2.prems"(2) out consider "c \<in> set (percent_escape (pair_code_point u d))" | "c \<in> set ys"
        by auto
      then show ?thesis
      proof cases
        case 1
        then show ?thesis
          using percent_escape_safe pair_code_point_bound [OF lead d] by blast
      next
        case 2
        then show ?thesis
          using "2.IH"(2) [OF False lead us d ys] by simp
      qed
    next
      case nolead: False
      with False "2.prems" obtain ys where
        t: "\<not> is_trail u" and ys: "encodeURIComponent us = Inr ys"
        and out: "out = percent_escape (unat u) @ ys"
        by (auto simp: emit_Inr split: if_splits)
      from "2.prems"(2) out consider "c \<in> set (percent_escape (unat u))" | "c \<in> set ys"
        by auto
      then show ?thesis
      proof cases
        case 1
        then show ?thesis
          using percent_escape_safe unit_bound by blast
      next
        case 2
        then show ?thesis
          using "2.IH"(3) [OF False nolead t ys] by simp
      qed
    qed
  qed
qed

text \<open>
  An escape never reads \<open>%2E\<close>: the dot is an unescaped character. So the encoded id
  is a dot segment only if the id itself is \<open>.\<close> or \<open>..\<close>.
\<close>

lemma sixteen_cases: "n < 16 \<Longrightarrow> n \<in> {0,1,2,3,4,5,6,7,8,9,10,11,12,13,14,15::nat}"
  by simp arith

lemma hex_digit_2: "n < 16 \<Longrightarrow> hex_digit n = 0x32 \<Longrightarrow> n = 2"
  by (drule sixteen_cases) (auto simp: hex_digit_def)

lemma hex_digit_E: "n < 16 \<Longrightarrow> hex_digit n = 0x45 \<or> hex_digit n = 0x65 \<Longrightarrow> n = 14"
  by (drule sixteen_cases) (auto simp: hex_digit_def)

lemma percent_octet_not_dot:
  assumes "b < 256" "b \<noteq> 0x2E"
  shows "\<not> (hex_digit (b div 16) = 0x32 \<and> (hex_digit (b mod 16) = 0x45 \<or> hex_digit (b mod 16) = 0x65))"
proof
  assume h: "hex_digit (b div 16) = 0x32 \<and> (hex_digit (b mod 16) = 0x45 \<or> hex_digit (b mod 16) = 0x65)"
  from assms(1) have "b div 16 < 16" "b mod 16 < 16" by simp_all
  with h have "b div 16 = 2" "b mod 16 = 14"
    using hex_digit_2 hex_digit_E by blast+
  then have "b = 0x2E" by arith
  with assms(2) show False by simp
qed

lemma first_octet_bound:
  "cp < 0x110000 \<Longrightarrow> cp \<noteq> 0x2E \<Longrightarrow> hd (utf8_octets cp) < 256 \<and> hd (utf8_octets cp) \<noteq> 0x2E"
  by (auto simp: utf8_octets_def)

lemma percent_escape_head:
  "\<exists>rest. percent_escape cp =
     0x25 # hex_digit (hd (utf8_octets cp) div 16) # hex_digit (hd (utf8_octets cp) mod 16) # rest"
  by (simp add: percent_escape_def utf8_octets_def percent_octet_def)

lemma percent_escape_starts:
  assumes "cp < 0x110000" "cp \<noteq> 0x2E"
  shows "\<exists>h1 h2 rest. percent_escape cp = 0x25 # h1 # h2 # rest \<and>
           \<not> (h1 = 0x32 \<and> (h2 = 0x45 \<or> h2 = 0x65))"
proof -
  from first_octet_bound [OF assms] have "hd (utf8_octets cp) < 256" "hd (utf8_octets cp) \<noteq> 0x2E"
    by simp_all
  from percent_octet_not_dot [OF this] percent_escape_head [of cp]
  show ?thesis by blast
qed

lemma not_unescaped_not_dot: "\<not> uriUnescaped c \<Longrightarrow> unat c \<noteq> 0x2E"
proof
  assume a: "\<not> uriUnescaped c" and "unat c = 0x2E"
  then have "unat c = unat (0x2E :: 16 word)" by simp
  then have "c = 0x2E" by (rule unsigned_word_eqI)
  with a show False by (simp add: uriUnescaped_def)
qed

lemma pair_code_point_not_dot: "pair_code_point c d \<noteq> 0x2E"
  by (simp add: pair_code_point_def)

lemma encode_Cons:
  assumes "encodeURIComponent (c # cs) = Inr out"
  shows "(uriUnescaped c \<and> (\<exists>ys. encodeURIComponent cs = Inr ys \<and> out = c # ys)) \<or>
         (\<not> uriUnescaped c \<and>
          (\<exists>h1 h2 rest. out = 0x25 # h1 # h2 # rest \<and>
             \<not> (h1 = 0x32 \<and> (h2 = 0x45 \<or> h2 = 0x65))))"
proof (cases "uriUnescaped c")
  case True
  with assms show ?thesis by (auto simp: emit_Inr)
next
  case False
  show ?thesis
  proof (cases "is_lead c")
    case True
    with False assms obtain d ys where "is_trail d"
      and out: "out = percent_escape (pair_code_point c d) @ ys"
      by (auto simp: emit_Inr split: list.splits if_splits)
    with percent_escape_starts [OF pair_code_point_bound [OF True \<open>is_trail d\<close>] pair_code_point_not_dot]
    show ?thesis using False by auto
  next
    case nolead: False
    with False assms obtain ys where out: "out = percent_escape (unat c) @ ys"
      by (auto simp: emit_Inr split: if_splits)
    with percent_escape_starts [OF unit_bound not_unescaped_not_dot [OF False]]
    show ?thesis using False by auto
  qed
qed

lemma encode_Nil: "encodeURIComponent s = Inr [] \<Longrightarrow> s = []"
proof (cases s)
  case Nil
  then show ?thesis by simp
next
  case (Cons c cs)
  assume "encodeURIComponent s = Inr []"
  with Cons encode_Cons [of c cs "[]"] show ?thesis by auto
qed

lemma ascii_lower_eq:
  "ascii_lower c = 0x2E \<Longrightarrow> c = 0x2E"
  "ascii_lower c = 0x25 \<Longrightarrow> c = 0x25"
  "ascii_lower c = 0x32 \<Longrightarrow> c = 0x32"
  "ascii_lower c = 0x65 \<Longrightarrow> c = 0x65 \<or> c = 0x45"
  by (auto simp: ascii_lower_def split: if_splits)

lemma ascii_lower_percent: "ascii_lower 0x25 = 0x25"
  by (simp add: ascii_lower_def)

lemma single_dot_source:
  assumes "encodeURIComponent s = Inr seg" "is_single_dot seg"
  shows "s = js ''.''"
proof (cases s)
  case Nil
  with assms show ?thesis by (simp add: is_single_dot_def js_simps)
next
  case (Cons c cs)
  from encode_Cons [of c cs seg] assms(1) Cons consider
    (plain) ys where "uriUnescaped c" "encodeURIComponent cs = Inr ys" "seg = c # ys"
  | (escaped) h1 h2 rest where "seg = 0x25 # h1 # h2 # rest"
      "\<not> (h1 = 0x32 \<and> (h2 = 0x45 \<or> h2 = 0x65))"
    by blast
  then show ?thesis
  proof cases
    case plain
    from assms(2) plain(3) have "(ascii_lower c = 0x2E \<and> ys = []) \<or> ascii_lower c = 0x25"
      by (auto simp: is_single_dot_def js_simps)
    moreover have "ascii_lower c \<noteq> 0x25"
      using plain(1) ascii_lower_eq(2) [of c] by (auto simp: uriUnescaped_def)
    ultimately have "c = 0x2E" "ys = []"
      using ascii_lower_eq(1) by auto
    with plain(2) encode_Nil have "cs = []" by simp
    with Cons \<open>c = 0x2E\<close> show ?thesis by (simp add: js_simps)
  next
    case escaped
    from assms(2) escaped(1) have "ascii_lower h1 = 0x32" "ascii_lower h2 = 0x65"
      by (auto simp: is_single_dot_def js_simps)
    with ascii_lower_eq(3,4) have "h1 = 0x32" "h2 = 0x65 \<or> h2 = 0x45" by auto
    with escaped(2) show ?thesis by auto
  qed
qed

lemma double_dot_source:
  assumes "encodeURIComponent s = Inr seg" "is_double_dot seg"
  shows "s = js ''..''"
proof (cases s)
  case Nil
  with assms show ?thesis by (simp add: is_double_dot_def js_simps)
next
  case (Cons c cs)
  from encode_Cons [of c cs seg] assms(1) Cons consider
    (plain) ys where "uriUnescaped c" "encodeURIComponent cs = Inr ys" "seg = c # ys"
  | (escaped) h1 h2 rest where "seg = 0x25 # h1 # h2 # rest"
      "\<not> (h1 = 0x32 \<and> (h2 = 0x45 \<or> h2 = 0x65))"
    by blast
  then show ?thesis
  proof cases
    case plain
    from assms(2) plain(3) have "(ascii_lower c = 0x2E \<and> is_single_dot ys) \<or> ascii_lower c = 0x25"
      by (auto simp: is_double_dot_def is_single_dot_def js_simps)
    moreover have "ascii_lower c \<noteq> 0x25"
      using plain(1) ascii_lower_eq(2) [of c] by (auto simp: uriUnescaped_def)
    ultimately have "c = 0x2E" "is_single_dot ys"
      using ascii_lower_eq(1) by auto
    with plain(2) single_dot_source have "cs = js ''.''" by simp
    with Cons \<open>c = 0x2E\<close> show ?thesis by (simp add: js_simps)
  next
    case escaped
    from assms(2) escaped(1) have "ascii_lower h1 = 0x32" "ascii_lower h2 = 0x65"
      by (auto simp: is_double_dot_def js_simps ascii_lower_percent)
    with ascii_lower_eq(3,4) have "h1 = 0x32" "h2 = 0x65 \<or> h2 = 0x45" by auto
    with escaped(2) show ?thesis by auto
  qed
qed

lemma path_state_plain:
  "\<forall>c \<in> set cs. c \<noteq> 0x2F \<and> c \<noteq> 0x5C \<and> c \<noteq> 0x3F \<and> c \<noteq> 0x23 \<Longrightarrow>
   path_state path buffer cs = path_end path (buffer @ cs)"
  by (induction cs arbitrary: buffer) simp_all

lemma safe_not_delimiter:
  "uriUnescaped c \<or> c = 0x25 \<Longrightarrow> c \<noteq> 0x2F \<and> c \<noteq> 0x5C \<and> c \<noteq> 0x3F \<and> c \<noteq> 0x23"
  by (auto simp: uriUnescaped_def)

lemma segment_appended:
  assumes "encodeURIComponent linkId = Inr seg" "linkId \<noteq> js ''.''" "linkId \<noteq> js ''..''"
  shows "path_state path [] seg = path @ [seg]"
proof -
  have "\<forall>c \<in> set seg. c \<noteq> 0x2F \<and> c \<noteq> 0x5C \<and> c \<noteq> 0x3F \<and> c \<noteq> 0x23"
    using encodeURIComponent_safe [OF assms(1)] safe_not_delimiter by blast
  then have "path_state path [] seg = path_end path seg"
    using path_state_plain [of seg path "[]"] by simp
  moreover have "\<not> is_single_dot seg" "\<not> is_double_dot seg"
    using assms single_dot_source double_dot_source by blast+
  ultimately show ?thesis by (simp add: path_end_def)
qed

lemma api_links_prefix:
  "url_path_segments (js ''/api/links/'' @ seg) = path_state [js ''api'', js ''links''] [] seg"
  by (simp add: url_path_segments_def js_simps is_double_dot_def is_single_dot_def ascii_lower_def)

lemma root_prefix: "url_path_segments (js ''/'' @ seg) = path_state [] [] seg"
  by (simp add: url_path_segments_def js_simps)

text \<open>
  C9 (amended). In \<open>updateLink\<close>, \<open>deleteLink\<close> and the redirect tester the link id
  enters the URL through \<open>encodeURIComponent\<close> only. If that throws (an unpaired
  surrogate), no request is made. Otherwise the URL is the prefix followed by the encoded
  id, which consists of unescaped characters and percent signs and so contains none of
  \<open>/\<close>, \<open>\\<close>, \<open>?\<close> and \<open>#\<close>; and for every id other than \<open>.\<close> and \<open>..\<close> the URL
  parser, wherever it stands when it reaches the encoded id, adds exactly that one
  segment to the path: the path of \<open>/api/links/<id>\<close> is api, links and the encoded id,
  and the path of \<open>/<id>\<close> is the encoded id.
\<close>

theorem encoded_link_id_segment:
  "(encodeURIComponent linkId = Inl e \<longrightarrow>
      updateLink_request env linkId token data = Inl e \<and>
      deleteLink_request env linkId token = Inl e \<and>
      testRedirect_request env (s\<lparr>tester_linkId := linkId\<rparr>) = Inl e) \<and>
   (encodeURIComponent linkId = Inr seg \<longrightarrow>
      (\<exists>rq. updateLink_request env linkId token data = Inr rq \<and>
            req_url rq = API_BASE env @ js ''/api/links/'' @ seg) \<and>
      (\<exists>rq. deleteLink_request env linkId token = Inr rq \<and>
            req_url rq = API_BASE env @ js ''/api/links/'' @ seg) \<and>
      (\<exists>rq. testRedirect_request env (s\<lparr>tester_linkId := linkId\<rparr>) = Inr rq \<and>
            req_url rq = API_BASE env @ js ''/'' @ seg) \<and>
      (\<forall>c \<in> set seg. uriUnescaped c \<or> c = 0x25) \<and>
      0x2F \<notin> set seg \<and> 0x5C \<notin> set seg \<and> 0x3F \<notin> set seg \<and> 0x23 \<notin> set seg \<and>
      (linkId \<noteq> js ''.'' \<and> linkId \<noteq> js ''..'' \<longrightarrow>
         (\<forall>path. path_state path [] seg = path @ [seg]) \<and>
         url_path_segments (js ''/api/links/'' @ seg) = [js ''api'', js ''links'', seg] \<and>
         url_path_segments (js ''/'' @ seg) = [seg]))"
proof (intro conjI impI)
  assume "encodeURIComponent linkId = Inl e"
  then show "updateLink_request env linkId token data = Inl e"
    "deleteLink_request env linkId token = Inl e"
    "testRedirect_request env (s\<lparr>tester_linkId := linkId\<rparr>) = Inl e"
    by (simp_all add: updateLink_request_def deleteLink_request_def testRedirect_request_def)
next
  assume enc: "encodeURIComponent linkId = Inr seg"
  then show "\<exists>rq. updateLink_request env linkId token data = Inr rq \<and>
            req_url rq = API_BASE env @ js ''/api/links/'' @ seg"
    "\<exists>rq. deleteLink_request env linkId token = Inr rq \<and>
            req_url rq = API_BASE env @ js ''/api/links/'' @ seg"
    "\<exists>rq. testRedirect_request env (s\<lparr>tester_linkId := linkId\<rparr>) = Inr rq \<and>
            req_url rq = API_BASE env @ js ''/'' @ seg"
    by (simp_all add: updateLink_request_def deleteLink_request_def testRedirect_request_def)
  show safe: "\<forall>c \<in> set seg. uriUnescaped c \<or> c = 0x25"
    using encodeURIComponent_safe [OF enc] by blast
  then show "0x2F \<notin> set seg" "0x5C \<notin> set seg" "0x3F \<notin> set seg" "0x23 \<notin> set seg"
    using safe_not_delimiter by blast+
  assume "linkId \<noteq> js ''.'' \<and> linkId \<noteq> js ''..''"
  then have seg: "path_state path [] seg = path @ [seg]" for path
    using segment_appended [OF enc] by simp
  then show "\<forall>path. path_state path [] seg = path @ [seg]"
    by simp
  from seg show "url_path_segments (js ''/api/links/'' @ seg) = [js ''api'', js ''links'', seg]"
    "url_path_segments (js ''/'' @ seg) = [seg]"
    by (simp_all add: api_links_prefix root_prefix)
qed

lemma encode_traversal:
  "encodeURIComponent (js ''../a?b#c'') = Inr (js ''..%2Fa%3Fb%23c'')"
  by (simp add: uriUnescaped_def emit_def percent_escape_def utf8_octets_def percent_octet_def
      hex_digit_def is_lead_def is_trail_def js_simps)

theorem encoded_link_id_segment_witness:
  "encodeURIComponent (js ''../a?b#c'') = Inr (js ''..%2Fa%3Fb%23c'') \<and>
   updateLink_request None (js ''../a?b#c'') (js ''t0ken'') [] =
     Inr \<lparr>req_url = js ''http://localhost:8000/api/links/..%2Fa%3Fb%23c'',
          req_method = js ''PATCH'',
          req_headers = [(js ''Content-Type'', js ''application/json''),
                         (js ''X-Edit-Token'', js ''t0ken'')],
          req_body = Some (js ''{}''), req_redirect = None\<rparr> \<and>
   url_path_segments (js ''/api/links/..%2Fa%3Fb%23c'') =
     [js ''api'', js ''links'', js ''..%2Fa%3Fb%23c''] \<and>
   url_path_segments (js ''/..%2Fa%3Fb%23c'') = [js ''..%2Fa%3Fb%23c'']"
proof (intro conjI)
  let ?id = "js ''../a?b#c''"
  let ?seg = "js ''..%2Fa%3Fb%23c''"
  have n: "?id \<noteq> js ''.'' \<and> ?id \<noteq> js ''..''"
    by (simp add: js_simps)
  have a: "js ''/api/links/'' @ ?seg = js ''/api/links/..%2Fa%3Fb%23c''"
    "js ''/'' @ ?seg = js ''/..%2Fa%3Fb%23c''"
    by (simp_all add: js_simps)
  note c = encoded_link_id_segment
    [of ?id URIError None "js ''t0ken''" "[]" initial_state ?seg,
     THEN conjunct2, rule_format, OF encode_traversal]
  note d = c [THEN conjunct2, THEN conjunct2, THEN conjunct2, THEN conjunct2, THEN conjunct2,
    THEN conjunct2, THEN conjunct2, THEN conjunct2, rule_format, OF n]
  show "encodeURIComponent ?id = Inr ?seg"
    by (rule encode_traversal)
  show "updateLink_request None ?id (js ''t0ken'') [] =
     Inr \<lparr>req_url = js ''http://localhost:8000/api/links/..%2Fa%3Fb%23c'',
          req_method = js ''PATCH'',
          req_headers = [(js ''Content-Type'', js ''application/json''),
                         (js ''X-Edit-Token'', js ''t0ken'')],
          req_body = Some (js ''{}''), req_redirect = None\<rparr>"
    unfolding updateLink_request_def encode_traversal
    by (simp add: API_BASE_def JSON_stringify_def JSON_object_text_def js_simps)
  show "url_path_segments (js ''/api/links/..%2Fa%3Fb%23c'') = [js ''api'', js ''links'', ?seg]"
    using d [THEN conjunct2, THEN conjunct1] unfolding a .
  show "url_path_segments (js ''/..%2Fa%3Fb%23c'') = [?seg]"
    using d [THEN conjunct2, THEN conjunct2] unfolding a .
qed

text \<open>
  C9 as stated fails at the id \<open>..\<close>: \<open>encodeURIComponent\<close> leaves it as it is,
  \<open>deleteLink\<close> asks for \<open>http://localhost:8000/api/links/..\<close>, and the path of that
  URL is \<open>/api/\<close>: the id has removed the segment links instead of adding one.
\<close>

theorem dot_dot_link_id_counterexample:
  "deleteLink_request None (js ''..'') (js ''t0ken'') =
     Inr \<lparr>req_url = js ''http://localhost:8000/api/links/..'', req_method = js ''DELETE'',
          req_headers = [(js ''X-Edit-Token'', js ''t0ken'')],
          req_body = None, req_redirect = None\<rparr> \<and>
   url_path_segments (js ''/api/links/..'') = [js ''api'', []]"
  by (simp add: deleteLink_request_def uriUnescaped_def emit_def API_BASE_def
      url_path_segments_def path_end_def is_double_dot_def is_single_dot_def ascii_lower_def
      js_simps)

section \<open>Result and error of a handler\<close>

text \<open>
  An event that is neither the click nor a settling of a handler leaves that handler's
  result and error as they are.
\<close>

lemma other_event_create:
  "\<not> is_create_event ev \<Longrightarrow>
   createResult (ui_step env s ev) = createResult s \<and>
   createError (ui_step env s ev) = createError s"
  by (cases ev) (auto simp: onUpdate_reset_def onUpdate_settle_def onDelete_reset_def
      onDelete_settle_def testRedirect_reset_def testRedirect_settle_def split: sum.splits)

lemma other_event_update:
  "\<not> is_update_event ev \<Longrightarrow>
   updResult (ui_step env s ev) = updResult s \<and> updError (ui_step env s ev) = updError s"
  by (cases ev) (auto simp: onCreate_reset_def onCreate_settle_def onDelete_reset_def
      onDelete_settle_def testRedirect_reset_def testRedirect_settle_def split: sum.splits)

lemma other_event_delete:
  "\<not> is_delete_event ev \<Longrightarrow>
   delResult (ui_step env s ev) = delResult s \<and> delError (ui_step env s ev) = delError s"
  by (cases ev) (auto simp: onCreate_reset_def onCreate_settle_def onUpdate_reset_def
      onUpdate_settle_def testRedirect_reset_def testRedirect_settle_def split: sum.splits)

lemma other_events_create:
  "list_all (\<lambda>ev. \<not> is_create_event ev) evs \<Longrightarrow>
   createResult (ui_run env s evs) = createResult s \<and>
   createError (ui_run env s evs) = createError s"
  unfolding ui_run_def
proof (induction evs arbitrary: s)
  case Nil
  then show ?case by simp
next
  case (Cons ev evs)
  then show ?case using other_event_create [of ev env s] by simp
qed

lemma other_events_update:
  "list_all (\<lambda>ev. \<not> is_update_event ev) evs \<Longrightarrow>
   updResult (ui_run env s evs) = updResult s \<and> updError (ui_run env s evs) = updError s"
  unfolding ui_run_def
proof (induction evs arbitrary: s)
  case Nil
  then show ?case by simp
next
  case (Cons ev evs)
  then show ?case using other_event_update [of ev env s] by simp
qed

lemma other_events_delete:
  "list_all (\<lambda>ev. \<not> is_delete_event ev) evs \<Longrightarrow>
   delResult (ui_run env s evs) = delResult s \<and> delError (ui_run env s evs) = delError s"
  unfolding ui_run_def
proof (induction evs arbitrary: s)
  case Nil
  then show ?case by simp
next
  case (Cons ev evs)
  then show ?case using other_event_delete [of ev env s] by simp
qed

lemma after_create_exact:
  assumes "list_all (\<lambda>ev. \<not> is_create_event ev) between"
  shows "createResult (after_create env s between (Inr v)) = v"
    and "createError (after_create env s between (Inr v)) = None"
    and "createResult (after_create env s between (Inl e)) = JNull"
    and "createError (after_create env s between (Inl e)) = Some (caught_message e)"
    and "createResult (after_create env s between outcome) = JNull \<or>
         createError (after_create env s between outcome) = None"
proof -
  let ?s1 = "ui_run env (ui_step env s ClickCreate) between"
  have s1: "createResult ?s1 = JNull" "createError ?s1 = None"
    using other_events_create [OF assms, of env "ui_step env s ClickCreate"]
    by (simp_all add: onCreate_reset_def)
  show "createResult (after_create env s between (Inr v)) = v"
    "createError (after_create env s between (Inr v)) = None"
    "createResult (after_create env s between (Inl e)) = JNull"
    "createError (after_create env s between (Inl e)) = Some (caught_message e)"
    using s1 by (simp_all add: after_create_def onCreate_settle_def)
  show "createResult (after_create env s between outcome) = JNull \<or>
         createError (after_create env s between outcome) = None"
    using s1 by (cases outcome) (simp_all add: after_create_def onCreate_settle_def)
qed

lemma after_update_exact:
  assumes "updateLink_request env (updLinkId s) (updToken s) (onUpdate_data s) = Inr rq"
    and "list_all (\<lambda>ev. \<not> is_update_event ev) between"
  shows "updResult (after_update env s between (Inr v)) = v"
    and "updError (after_update env s between (Inr v)) = None"
    and "updResult (after_update env s between (Inl e)) = JNull"
    and "updError (after_update env s between (Inl e)) = Some (caught_message e)"
    and "updResult (after_update env s between outcome) = JNull \<or>
         updError (after_update env s between outcome) = None"
proof -
  let ?s1 = "ui_run env (ui_step env s ClickUpdate) between"
  have s1: "updResult ?s1 = JNull" "updError ?s1 = None"
    using other_events_update [OF assms(2), of env "ui_step env s ClickUpdate"] assms(1)
    by (simp_all add: onUpdate_reset_def)
  show "updResult (after_update env s between (Inr v)) = v"
    "updError (after_update env s between (Inr v)) = None"
    "updResult (after_update env s between (Inl e)) = JNull"
    "updError (after_update env s between (Inl e)) = Some (caught_message e)"
    using s1 by (simp_all add: after_update_def onUpdate_settle_def)
  show "updResult (after_update env s between outcome) = JNull \<or>
         updError (after_update env s between outcome) = None"
    using s1 by (cases outcome) (simp_all add: after_update_def onUpdate_settle_def)
qed

lemma after_delete_exact:
  assumes "deleteLink_request env (delLinkId s) (delToken s) = Inr rq"
    and "list_all (\<lambda>ev. \<not> is_delete_event ev) between"
  shows "delResult (after_delete env s between (Inr v)) = v"
    and "delError (after_delete env s between (Inr v)) = None"
    and "delResult (after_delete env s between (Inl e)) = JNull"
    and "delError (after_delete env s between (Inl e)) = Some (caught_message e)"
    and "delResult (after_delete env s between outcome) = JNull \<or>
         delError (after_delete env s between outcome) = None"
proof -
  let ?s1 = "ui_run env (ui_step env s ClickDelete) between"
  have s1: "delResult ?s1 = JNull" "delError ?s1 = None"
    using other_events_delete [OF assms(2), of env "ui_step env s ClickDelete"] assms(1)
    by (simp_all add: onDelete_reset_def)
  show "delResult (after_delete env s between (Inr v)) = v"
    "delError (after_delete env s between (Inr v)) = None"
    "delResult (after_delete env s between (Inl e)) = JNull"
    "delError (after_delete env s between (Inl e)) = Some (caught_message e)"
    using s1 by (simp_all add: after_delete_def onDelete_settle_def)
  show "delResult (after_delete env s between outcome) = JNull \<or>
         delError (after_delete env s between outcome) = None"
    using s1 by (cases outcome) (simp_all add: after_delete_def onDelete_settle_def)
qed

text \<open>
  C10 (amended). Each of \<open>onCreate\<close>, \<open>onUpdate\<close> and \<open>onDelete\<close> sets its error and its
  result to null at the click, and when its request settles it sets exactly one of them:
  the result to the value on success, the error to the caught message on failure (at
  once, when the call throws before it reaches \<open>fetch\<close>). If no other click or settling
  of the same handler comes between the click and the settling (whatever else happens on
  the page meanwhile), then afterwards the other one of the pair is null: at most one of
  result and error is not null, and a failure leaves no result of an earlier success.
  Run from click to completion with nothing in between, the handler functions
  themselves are such invocations.
\<close>

theorem handler_result_error_exclusive:
  "createResult (ui_step env s ClickCreate) = JNull \<and>
   createError (ui_step env s ClickCreate) = None \<and>
   onCreate env fetch s = after_create env s [] (createLink env fetch (onCreate_payload s)) \<and>
   (list_all (\<lambda>ev. \<not> is_create_event ev) between \<longrightarrow>
      createResult (after_create env s between (Inr v)) = v \<and>
      createError (after_create env s between (Inr v)) = None \<and>
      createResult (after_create env s between (Inl e)) = JNull \<and>
      createError (after_create env s between (Inl e)) = Some (caught_message e) \<and>
      (createResult (after_create env s between outcome) = JNull \<or>
       createError (after_create env s between outcome) = None)) \<and>
   (updateLink_request env (updLinkId s) (updToken s) (onUpdate_data s) = Inl e' \<longrightarrow>
      onUpdate env fetch s = ui_step env s ClickUpdate \<and>
      updResult (ui_step env s ClickUpdate) = JNull \<and>
      updError (ui_step env s ClickUpdate) = Some (caught_message e')) \<and>
   (updateLink_request env (updLinkId s) (updToken s) (onUpdate_data s) = Inr rq \<longrightarrow>
      updResult (ui_step env s ClickUpdate) = JNull \<and>
      updError (ui_step env s ClickUpdate) = None \<and>
      onUpdate env fetch s =
        after_update env s []
          (updateLink env fetch (updLinkId s) (updToken s) (onUpdate_data s)) \<and>
      (list_all (\<lambda>ev. \<not> is_update_event ev) between \<longrightarrow>
         updResult (after_update env s between (Inr v)) = v \<and>
         updError (after_update env s between (Inr v)) = None \<and>
         updResult (after_update env s between (Inl e)) = JNull \<and>
         updError (after_update env s between (Inl e)) = Some (caught_message e) \<and>
         (updResult (after_update env s between outcome) = JNull \<or>
          updError (after_update env s between outcome) = None))) \<and>
   (deleteLink_request env (delLinkId s) (delToken s) = Inl e' \<longrightarrow>
      onDelete env fetch s = ui_step env s ClickDelete \<and>
      delResult (ui_step env s ClickDelete) = JNull \<and>
      delError (ui_step env s ClickDelete) = Some (caught_message e')) \<and>
   (deleteLink_request env (delLinkId s) (delToken s) = Inr rq' \<longrightarrow>
      delResult (ui_step env s ClickDelete) = JNull \<and>
      delError (ui_step env s ClickDelete) = None \<and>
      onDelete env fetch s =
        after_delete env s [] (deleteLink env fetch (delLinkId s) (delToken s)) \<and>
      (list_all (\<lambda>ev. \<not> is_delete_event ev) between \<longrightarrow>
         delResult (after_delete env s between (Inr v)) = v \<and>
         delError (after_delete env s between (Inr v)) = None \<and>
         delResult (after_delete env s between (Inl e)) = JNull \<and>
         delError (after_delete env s between (Inl e)) = Some (caught_message e) \<and>
         (delResult (after_delete env s between outcome) = JNull \<or>
          delError (after_delete env s between outcome) = None)))"
proof (intro conjI impI)
  show "createResult (ui_step env s ClickCreate) = JNull"
    "createError (ui_step env s ClickCreate) = None"
    by (simp_all add: onCreate_reset_def)
  show "onCreate env fetch s = after_create env s [] (createLink env fetch (onCreate_payload s))"
    by (simp add: onCreate_def after_create_def ui_run_def)
next
  assume a: "list_all (\<lambda>ev. \<not> is_create_event ev) between"
  show "createResult (after_create env s between (Inr v)) = v"
    "createError (after_create env s between (Inr v)) = None"
    "createResult (after_create env s between (Inl e)) = JNull"
    "createError (after_create env s between (Inl e)) = Some (caught_message e)"
    "createResult (after_create env s between outcome) = JNull \<or>
       createError (after_create env s between outcome) = None"
    by (rule after_create_exact [OF a])+
next
  assume r: "updateLink_request env (updLinkId s) (updToken s) (onUpdate_data s) = Inl e'"
  then show "onUpdate env fetch s = ui_step env s ClickUpdate"
    "updResult (ui_step env s ClickUpdate) = JNull"
    "updError (ui_step env s ClickUpdate) = Some (caught_message e')"
    by (simp_all add: onUpdate_def updateLink_def onUpdate_settle_def onUpdate_reset_def)
next
  assume r: "updateLink_request env (updLinkId s) (updToken s) (onUpdate_data s) = Inr rq"
  then show "updResult (ui_step env s ClickUpdate) = JNull"
    "updError (ui_step env s ClickUpdate) = None"
    by (simp_all add: onUpdate_reset_def)
  from r show "onUpdate env fetch s =
        after_update env s []
          (updateLink env fetch (updLinkId s) (updToken s) (onUpdate_data s))"
    by (simp add: onUpdate_def after_update_def ui_run_def)
  assume a: "list_all (\<lambda>ev. \<not> is_update_event ev) between"
  show "updResult (after_update env s between (Inr v)) = v"
    "updError (after_update env s between (Inr v)) = None"
    "updResult (after_update env s between (Inl e)) = JNull"
    "updError (after_update env s between (Inl e)) = Some (caught_message e)"
    "updResult (after_update env s between outcome) = JNull \<or>
          updError (after_update env s between outcome) = None"
    by (rule after_update_exact [OF r a])+
next
  assume r: "deleteLink_request env (delLinkId s) (delToken s) = Inl e'"
  then show "onDelete env fetch s = ui_step env s ClickDelete"
    "delResult (ui_step env s ClickDelete) = JNull"
    "delError (ui_step env s ClickDelete) = Some (caught_message e')"
    by (simp_all add: onDelete_def deleteLink_def onDelete_settle_def onDelete_reset_def)
next
  assume r: "deleteLink_request env (delLinkId s) (delToken s) = Inr rq'"
  then show "delResult (ui_step env s ClickDelete) = JNull"
    "delError (ui_step env s ClickDelete) = None"
    by (simp_all add: onDelete_reset_def)
  from r show "onDelete env fetch s =
        after_delete env s [] (deleteLink env fetch (delLinkId s) (delToken s))"
    by (simp add: onDelete_def after_delete_def ui_run_def)
  assume a: "list_all (\<lambda>ev. \<not> is_delete_event ev) between"
  show "delResult (after_delete env s between (Inr v)) = v"
    "delError (after_delete env s between (Inr v)) = None"
    "delResult (after_delete env s between (Inl e)) = JNull"
    "delError (after_delete env s between (Inl e)) = Some (caught_message e)"
    "delResult (after_delete env s between outcome) = JNull \<or>
          delError (after_delete env s between outcome) = None"
    by (rule after_delete_exact [OF r a])+
qed

theorem handler_result_error_exclusive_witness:
  "list_all (\<lambda>ev. \<not> is_create_event ev) [InputUpdTarget (js ''x''), ClickTest] \<and>
   list_all (\<lambda>ev. \<not> is_update_event ev) [InputUpdTarget (js ''x''), ClickTest] \<and>
   list_all (\<lambda>ev. \<not> is_delete_event ev) [InputUpdTarget (js ''x''), ClickTest] \<and>
   createResult (after_create None (initial_state\<lparr>createResult := example_created\<rparr>)
     [InputUpdTarget (js ''x''), ClickTest] (Inl (new_Error (js ''boom'')))) = JNull \<and>
   createError (after_create None (initial_state\<lparr>createResult := example_created\<rparr>)
     [InputUpdTarget (js ''x''), ClickTest] (Inl (new_Error (js ''boom'')))) = Some (js ''boom'') \<and>
   updResult (after_update None (initial_state\<lparr>updError := Some (js ''old'')\<rparr>)
     [InputUpdTarget (js ''x''), ClickTest] (Inr example_link)) = example_link \<and>
   updError (after_update None (initial_state\<lparr>updError := Some (js ''old'')\<rparr>)
     [InputUpdTarget (js ''x''), ClickTest] (Inr example_link)) = None \<and>
   delResult (after_delete None (initial_state\<lparr>delResult := example_deleted\<rparr>)
     [InputUpdTarget (js ''x''), ClickTest] (Inl (new_Error (js ''boom'')))) = JNull \<and>
   delError (after_delete None (initial_state\<lparr>delResult := example_deleted\<rparr>)
     [InputUpdTarget (js ''x''), ClickTest] (Inl (new_Error (js ''boom'')))) = Some (js ''boom'')"
proof -
  let ?b = "[InputUpdTarget (js ''x''), ClickTest]"
  let ?sc = "initial_state\<lparr>createResult := example_created\<rparr>"
  let ?su = "initial_state\<lparr>updError := Some (js ''old'')\<rparr>"
  let ?sd = "initial_state\<lparr>delResult := example_deleted\<rparr>"
  have l: "list_all (\<lambda>ev. \<not> is_create_event ev) ?b" "list_all (\<lambda>ev. \<not> is_update_event ev) ?b"
    "list_all (\<lambda>ev. \<not> is_delete_event ev) ?b"
    by simp_all
  have m: "caught_message (new_Error (js ''boom'')) = js ''boom''"
    by (simp add: caught_message_def new_Error_def js_simps)
  obtain ru where ru: "updateLink_request None (updLinkId ?su) (updToken ?su) (onUpdate_data ?su) =
      Inr ru"
    by (simp add: updateLink_request_def initial_state_def)
  obtain rd where rd: "deleteLink_request None (delLinkId ?sd) (delToken ?sd) = Inr rd"
    by (simp add: deleteLink_request_def initial_state_def)
  note C = handler_result_error_exclusive
    [where env = None and s = ?sc and between = ?b and e = "new_Error (js ''boom'')",
     THEN conjunct2, THEN conjunct2, THEN conjunct2, THEN conjunct1, rule_format, OF l(1)]
  note U = handler_result_error_exclusive
    [where env = None and s = ?su and between = ?b and v = example_link and rq = ru,
     THEN conjunct2, THEN conjunct2, THEN conjunct2, THEN conjunct2, THEN conjunct2,
     THEN conjunct1, rule_format, OF ru,
     THEN conjunct2, THEN conjunct2, THEN conjunct2, rule_format, OF l(2)]
  note D = handler_result_error_exclusive
    [where env = None and s = ?sd and between = ?b and e = "new_Error (js ''boom'')" and rq' = rd,
     THEN conjunct2, THEN conjunct2, THEN conjunct2, THEN conjunct2, THEN conjunct2,
     THEN conjunct2, THEN conjunct2, rule_format, OF rd,
     THEN conjunct2, THEN conjunct2, THEN conjunct2, rule_format, OF l(3)]
  from C U D l show ?thesis
    unfolding m by blast
qed

text \<open>
  C10 as stated fails when a handler is started again before its request has settled.
  Create is clicked twice with the alias promo; the first request is answered 201 and
  sets the result; the second is answered 409 and sets the error. After the second
  invocation has completed, the result of the first is still shown beside the error.
\<close>

theorem double_click_create_counterexample:
  "createResult (ui_run None initial_state
     [InputCreateAlias (js ''promo''), ClickCreate, ClickCreate,
      SettleCreate (createLink None
        (fetch_always \<lparr>res_status = 201, res_headers = [],
           res_text = Inr (JSON_object_text [(js ''link_id'', QuoteJSONString (js ''promo''))]),
           res_json = Inr (JObj [(js ''link_id'', JStr (js ''promo''))])\<rparr>)
        \<lparr>target_url = [], link_id = Some (js ''promo''), redirect_code = Some R301\<rparr>),
      SettleCreate (createLink None
        (fetch_always \<lparr>res_status = 409, res_headers = [], res_text = Inr (js ''link_id taken''),
                       res_json = Inl (JsError (js ''SyntaxError'') (js ''Unexpected token''))\<rparr>)
        \<lparr>target_url = [], link_id = Some (js ''promo''), redirect_code = Some R301\<rparr>)]) =
     JObj [(js ''link_id'', JStr (js ''promo''))] \<and>
   createError (ui_run None initial_state
     [InputCreateAlias (js ''promo''), ClickCreate, ClickCreate,
      SettleCreate (createLink None
        (fetch_always \<lparr>res_status = 201, res_headers = [],
           res_text = Inr (JSON_object_text [(js ''link_id'', QuoteJSONString (js ''promo''))]),
           res_json = Inr (JObj [(js ''link_id'', JStr (js ''promo''))])\<rparr>)
        \<lparr>target_url = [], link_id = Some (js ''promo''), redirect_code = Some R301\<rparr>),
      SettleCreate (createLink None
        (fetch_always \<lparr>res_status = 409, res_headers = [], res_text = Inr (js ''link_id taken''),
                       res_json = Inl (JsError (js ''SyntaxError'') (js ''Unexpected token''))\<rparr>)
        \<lparr>target_url = [], link_id = Some (js ''promo''), redirect_code = Some R301\<rparr>)]) =
     Some (js ''link_id taken'')"
proof -
  have ok: "createLink None
        (fetch_always \<lparr>res_status = 201, res_headers = [],
           res_text = Inr (JSON_object_text [(js ''link_id'', QuoteJSONString (js ''promo''))]),
           res_json = Inr (JObj [(js ''link_id'', JStr (js ''promo''))])\<rparr>)
        \<lparr>target_url = [], link_id = Some (js ''promo''), redirect_code = Some R301\<rparr> =
      Inr (JObj [(js ''link_id'', JStr (js ''promo''))])"
    by (simp add: createLink_def fetch_always_def res_ok_def)
  have bad: "createLink None
        (fetch_always \<lparr>res_status = 409, res_headers = [], res_text = Inr (js ''link_id taken''),
                       res_json = Inl (JsError (js ''SyntaxError'') (js ''Unexpected token''))\<rparr>)
        \<lparr>target_url = [], link_id = Some (js ''promo''), redirect_code = Some R301\<rparr> =
      Inl (new_Error (js ''link_id taken''))"
    by (simp add: createLink_def fetch_always_def res_ok_def)
  have m: "caught_message (new_Error (js ''link_id taken'')) = js ''link_id taken''"
    by (simp add: caught_message_def new_Error_def js_simps)
  show ?thesis
    unfolding ok bad
    by (simp add: ui_run_def onCreate_reset_def onCreate_settle_def m)
qed

end
